theory Spec2Isabelle
  imports Main
begin

section \<open>Data model\<close>

text \<open>
  The routes of \<^verbatim>\<open>backend/routes/files.js\<close> work on three MongoDB collections (files,
  storage statistics, activities) and on the upload directory of the server. Every
  collection is a list of documents in natural order, which is the order
  \<^verbatim>\<open>findOne\<close> scans; the upload directory is a list of per-user
  directories, each a list of entries in the order \<^verbatim>\<open>readdirSync\<close> returns them.

  Object ids are the strings that \<^verbatim>\<open>toString()\<close> prints for them. A query by
  \<^verbatim>\<open>_id\<close> casts the string of the request to an ObjectId, while \<^verbatim>\<open>===\<close> compares
  the strings as they were sent. The move and download routes take the cast as a
  parameter (section Object ids); the other routes are modelled for requests that carry
  ids as \<^verbatim>\<open>toString()\<close> prints them. A stored path is always of the form
  \<^verbatim>\<open>uploads/<area>/<entry>\<close> (multer's destination, the fallback search and the relink
  script write no other), so a path is the pair of its area and its entry name.
\<close>

type_synonym oid = string
type_synonym path = "string \<times> string"
type_synonym time = nat

text \<open>
  Modelled from the spec: the schema of \<^verbatim>\<open>models/File.js\<close> is not among the sources.
  The record holds the fields that the routes read and write, typed by section 3 of the
  specification; a new document has \<open>inTrash = False\<close>, no deletion dates and no
  public token.
\<close>

record fileDoc =
  docId :: oid
  userId :: oid
  name :: string
  originalName :: "string option"
  ftype :: string
  fsize :: nat
  path :: "path option"
  parentFolder :: "oid option"
  isFolder :: bool
  inTrash :: bool
  deletedAt :: "time option"
  permanentDeleteAt :: "time option"
  isPublic :: bool
  publicUrl :: "string option"
  sharedWith :: "(oid \<times> string) list"
  metadata :: "(string \<times> string) list"
  createdAt :: time
  updatedAt :: time

text \<open>The authenticated session (\<^verbatim>\<open>req.user\<close>).\<close>

record user =
  uid :: oid
  username :: string
  email :: string

text \<open>
  Modelled from the spec: \<^verbatim>\<open>models/StorageStats.js\<close> is not among the sources. A
  document holds the per-account totals of section 3 (the per-type breakdown is never
  read by the routes below and is left out).
\<close>

record storageStats =
  statsUser :: oid
  usedStorage :: nat
  totalFiles :: nat
  totalFolders :: nat

text \<open>An activity document, as \<^verbatim>\<open>activitySchema\<close> declares it.\<close>

record activity =
  atype :: string
  actFileId :: "oid option"
  fileName :: string
  actUserId :: "oid option"
  details :: "(string \<times> string) list"

text \<open>What \<^verbatim>\<open>fs.statSync\<close> says about a directory entry; \<open>Unreadable\<close> is a
  \<^verbatim>\<open>statSync\<close> that throws.\<close>

datatype stat = RegularFile nat | NotAFile | Unreadable

datatype dnode = Directory "(string \<times> stat) list" | NotADirectory

record state =
  db :: "fileDoc list"
  stats :: "storageStats list"
  activities :: "activity list"
  disk :: "(string \<times> dnode) list"

text \<open>The \<^verbatim>\<open>file\<close> object of an upload reply.\<close>

record fileInfo =
  infoId :: oid
  infoName :: string
  infoType :: string
  infoSize :: nat
  uploadDate :: time
  infoParent :: "oid option"
  uploader :: "(string \<times> string) option"
  url :: "string option"

text \<open>
  The replies of the routes: \<open>Failure\<close> is \<^verbatim>\<open>res.status(n).json({success: false, error})\<close>,
  \<open>Message\<close> a success with a message only, \<open>FileReply\<close> and \<open>FilesReply\<close> the
  success replies of the two upload routes, \<open>Stream\<close> the attachment headers followed by
  the bytes read from a path.
\<close>

datatype response =
    Failure nat string
  | Message nat string
  | FileReply nat string fileInfo
  | FilesReply nat string "fileInfo list" nat
  | Stream string path

section \<open>Collections\<close>

definition findOne :: "('a \<Rightarrow> bool) \<Rightarrow> 'a list \<Rightarrow> 'a option" where
  "findOne q docs = find q docs"

definition findById :: "fileDoc list \<Rightarrow> oid \<Rightarrow> fileDoc option" where
  "findById files i = findOne (\<lambda>f. docId f = i) files"

text \<open>\<^verbatim>\<open>doc.save()\<close> of a document read from the collection, and of a new one.\<close>

definition save :: "fileDoc \<Rightarrow> fileDoc list \<Rightarrow> fileDoc list" where
  "save f files = map (\<lambda>g. if docId g = docId f then f else g) files"

definition saveNew :: "fileDoc \<Rightarrow> fileDoc list \<Rightarrow> fileDoc list" where
  "saveNew f files = files @ [f]"

subsection \<open>Activity log\<close>

definition activityTypes :: "string list" where
  "activityTypes = [''upload'', ''download'', ''view'', ''share'', ''rename'', ''move'',
     ''delete'', ''restore'', ''create_folder'', ''share_link'', ''copy'',
     ''permanent_delete'', ''empty_trash'', ''download_public'']"

text \<open>
  \<^verbatim>\<open>Activity.logActivity\<close> saves the document and rethrows what \<^verbatim>\<open>save\<close> throws.
  The schema validates on save: the type is one of the enumerated strings, the file name
  and the user are required. \<open>None\<close> is the rethrown validation error.
\<close>

definition validActivity :: "activity \<Rightarrow> bool" where
  "validActivity a \<longleftrightarrow> atype a \<in> set activityTypes \<and> fileName a \<noteq> [] \<and> actUserId a \<noteq> None"

definition logActivity :: "activity \<Rightarrow> state \<Rightarrow> state option" where
  "logActivity a s =
     (if validActivity a then Some (s\<lparr>activities := activities s @ [a]\<rparr>) else None)"

section \<open>Object ids\<close>

text \<open>
  \<^verbatim>\<open>File.findOne({_id: x})\<close> casts the string \<open>x\<close> to an ObjectId before it looks for a
  document. The cast is Mongoose's, not the repository's, and which strings it accepts
  depends on the version, so the routes take it as a parameter \<open>cast\<close>: \<open>None\<close> is a
  string that cannot be cast (the query throws a \<^verbatim>\<open>CastError\<close>), \<open>Some i\<close> the id whose
  \<^verbatim>\<open>toString()\<close> is \<open>i\<close>. A string is sent in canonical form when it is cast to itself.

  \<open>hexCast\<close> is the cast that every version has: a string of 24 hexadecimal digits is
  the id that prints in lower case. The examples use it.
\<close>

definition lowerOf :: "char \<Rightarrow> char" where
  "lowerOf c =
     (case map_of (zip ''ABCDEFGHIJKLMNOPQRSTUVWXYZ'' ''abcdefghijklmnopqrstuvwxyz'') c of
        None \<Rightarrow> c
      | Some l \<Rightarrow> l)"

definition hexCast :: "string \<Rightarrow> oid option" where
  "hexCast x =
     (if length x = 24 \<and> list_all (\<lambda>c. lowerOf c \<in> set ''0123456789abcdef'') x
      then Some (map lowerOf x) else None)"

section \<open>Folder hierarchy\<close>

text \<open>
  \<^verbatim>\<open>checkIfSubfolder\<close> follows the parent links from \<open>parentFolderId\<close> upwards. The loop
  has no bound, so it is a partial function: \<open>None\<close> is a walk that never returns.
\<close>

partial_function (option) checkIfSubfolder :: "fileDoc list \<Rightarrow> oid option \<Rightarrow> oid \<Rightarrow> bool option" where
  "checkIfSubfolder files currentFolderId potentialSubfolderId =
     (case currentFolderId of
        None \<Rightarrow> Some False
      | Some c \<Rightarrow>
          (case findById files c of
             None \<Rightarrow> Some False
           | Some folder \<Rightarrow>
               if docId folder = potentialSubfolderId then Some True
               else checkIfSubfolder files (parentFolder folder) potentialSubfolderId))"

text \<open>
  The value of \<^verbatim>\<open>targetFolderId\<close> while the move route runs: \<^verbatim>\<open>null\<close> or
  \<^verbatim>\<open>undefined\<close>, a string of the request body, or the ObjectId of a folder looked up by
  name. \<^verbatim>\<open>===\<close> between the string \<^verbatim>\<open>fileId\<close> and an ObjectId is false.
\<close>

datatype idref = Null | Str string | Obj oid

fun truthy :: "idref \<Rightarrow> bool" where
  "truthy Null = False"
| "truthy (Str x) = (x \<noteq> [])"
| "truthy (Obj i) = True"

fun strictEq :: "string \<Rightarrow> idref \<Rightarrow> bool" where
  "strictEq x (Str y) = (x = y)"
| "strictEq x r = False"

fun refId :: "idref \<Rightarrow> oid option" where
  "refId Null = None"
| "refId (Str x) = Some x"
| "refId (Obj i) = Some i"

fun orRoot :: "oid option \<Rightarrow> string" where
  "orRoot None = ''root''"
| "orRoot (Some i) = i"

text \<open>The id that a query looks for when it is given \<^verbatim>\<open>targetFolderId\<close>.\<close>

fun castRef :: "(string \<Rightarrow> oid option) \<Rightarrow> idref \<Rightarrow> oid option" where
  "castRef cast Null = None"
| "castRef cast (Str x) = cast x"
| "castRef cast (Obj i) = Some i"

text \<open>The body of \<^verbatim>\<open>POST /:fileId/move\<close>.\<close>

record moveBody =
  targetFolderId :: "string option"
  targetFolderName :: "string option"

definition resolveName :: "state \<Rightarrow> user \<Rightarrow> moveBody \<Rightarrow> response + idref" where
  "resolveName s u b =
     (let t = (case targetFolderId b of None \<Rightarrow> Null | Some x \<Rightarrow> Str x) in
      case targetFolderName b of
        None \<Rightarrow> Inr t
      | Some n \<Rightarrow>
          if n \<noteq> [] \<and> \<not> truthy t then
            (case findOne (\<lambda>f. name f = n \<and> userId f = uid u \<and> isFolder f \<and> \<not> inTrash f) (db s) of
               Some targetFolder \<Rightarrow> Inr (Obj (docId targetFolder))
             | None \<Rightarrow> Inl (Failure 404 (''Folder '' @ [CHR 0x22] @ n @ [CHR 0x22] @ '' not found'')))
          else Inr t)"

definition normalizeRoot :: "idref \<Rightarrow> idref" where
  "normalizeRoot t = (if t = Str [] \<or> t = Str ''root'' then Null else t)"

text \<open>\<^verbatim>\<open>targetFolderId\<close> after the lookup by name and the test for the root.\<close>

definition targetRef :: "state \<Rightarrow> user \<Rightarrow> moveBody \<Rightarrow> response + idref" where
  "targetRef s u b =
     (case resolveName s u b of Inl r \<Rightarrow> Inl r | Inr t \<Rightarrow> Inr (normalizeRoot t))"

definition moveFailed :: response where
  "moveFailed = Failure 500 ''Server error while moving file''"

text \<open>
  The checks on a target that is not the root. \<open>None\<close> is a cycle check that never
  returns, \<open>Some None\<close> a target that passed. The lookup casts the target; the guard
  against a move into itself compares \<^verbatim>\<open>fileId\<close> and the target as they are, and the
  walk compares \<^verbatim>\<open>fileId\<close> as it was sent with the ids it prints.
\<close>

definition checkTarget :: "(string \<Rightarrow> oid option) \<Rightarrow> state \<Rightarrow> user \<Rightarrow> fileDoc \<Rightarrow> string \<Rightarrow> idref
                            \<Rightarrow> response option option" where
  "checkTarget cast s u f fileId t =
     (if \<not> truthy t then Some None
      else
        (case castRef cast t of
           None \<Rightarrow> Some (Some moveFailed)
         | Some i \<Rightarrow>
             (case findOne (\<lambda>g. docId g = i \<and> userId g = uid u \<and> isFolder g) (db s) of
                None \<Rightarrow> Some (Some (Failure 404 ''Target folder not found''))
              | Some targetFolder \<Rightarrow>
                  if isFolder f \<and> strictEq fileId t
                  then Some (Some (Failure 400 ''Cannot move folder into itself''))
                  else if isFolder f then
                    (case checkIfSubfolder (db s) (Some i) fileId of
                       None \<Rightarrow> None
                     | Some isSubfolder \<Rightarrow>
                         if isSubfolder
                         then Some (Some (Failure 400 ''Cannot move folder into its own subfolder''))
                         else Some None)
                  else Some None)))"

text \<open>The assignment stores the target as the id it is cast to.\<close>

definition commitMove :: "(string \<Rightarrow> oid option) \<Rightarrow> state \<Rightarrow> user \<Rightarrow> fileDoc \<Rightarrow> idref \<Rightarrow> time
                           \<Rightarrow> response \<times> state" where
  "commitMove cast s u f t now =
     (let oldParent = parentFolder f;
          f' = f\<lparr>parentFolder := (if truthy t then castRef cast t else None), updatedAt := now\<rparr>;
          s' = s\<lparr>db := save f' (db s)\<rparr>
      in case logActivity
             \<lparr>atype = ''move'', actFileId = Some (docId f'), fileName = name f',
              actUserId = Some (uid u),
              details = [(''oldLocation'', orRoot oldParent),
                         (''newLocation'', orRoot (if truthy t then refId t else None))]\<rparr> s' of
           None \<Rightarrow> (moveFailed, s')
         | Some s'' \<Rightarrow> (Message 200 ''Moved successfully'', s''))"

definition move :: "(string \<Rightarrow> oid option) \<Rightarrow> state \<Rightarrow> user \<Rightarrow> string \<Rightarrow> moveBody \<Rightarrow> time
                      \<Rightarrow> (response \<times> state) option" where
  "move cast s u fileId b now =
     (case cast fileId of
        None \<Rightarrow> Some (moveFailed, s)
      | Some i \<Rightarrow>
          (case findOne (\<lambda>f. docId f = i \<and> userId f = uid u) (db s) of
             None \<Rightarrow> Some (Failure 404 ''File not found'', s)
           | Some f \<Rightarrow>
               (case targetRef s u b of
                  Inl r \<Rightarrow> Some (r, s)
                | Inr t \<Rightarrow>
                    (case checkTarget cast s u f fileId t of
                       None \<Rightarrow> None
                     | Some (Some r) \<Rightarrow> Some (r, s)
                     | Some None \<Rightarrow> Some (commitMove cast s u f t now)))))"

definition SelfMoveError :: response where
  "SelfMoveError = Failure 400 ''Cannot move folder into itself''"

definition CycleError :: response where
  "CycleError = Failure 400 ''Cannot move folder into its own subfolder''"

text \<open>A request that names its target by id only, and one that names it by name.\<close>

definition byId :: "string option \<Rightarrow> moveBody" where
  "byId t = \<lparr>targetFolderId = t, targetFolderName = None\<rparr>"

definition byName :: "string \<Rightarrow> moveBody" where
  "byName n = \<lparr>targetFolderId = None, targetFolderName = Some n\<rparr>"

text \<open>
  Two readings of the hierarchy that the walk is compared with: \<open>atOrBelow files b a\<close>
  says that the folder \<open>b\<close> is \<open>a\<close> or lies below \<open>a\<close>, following stored parent links
  upwards from \<open>b\<close>; \<open>reachesRoot files c\<close> says that the chain of parent links from
  \<open>c\<close> ends, at the root or at an id with no document.
\<close>

inductive atOrBelow :: "fileDoc list \<Rightarrow> oid \<Rightarrow> oid \<Rightarrow> bool" for files where
  self: "findById files b = Some f \<Longrightarrow> atOrBelow files b b"
| step: "findById files b = Some f \<Longrightarrow> parentFolder f = Some p \<Longrightarrow> atOrBelow files p a
         \<Longrightarrow> atOrBelow files b a"

inductive reachesRoot :: "fileDoc list \<Rightarrow> oid option \<Rightarrow> bool" for files where
  root: "reachesRoot files None"
| missing: "findById files c = None \<Longrightarrow> reachesRoot files (Some c)"
| up: "findById files c = Some f \<Longrightarrow> reachesRoot files (parentFolder f)
         \<Longrightarrow> reachesRoot files (Some c)"

section \<open>Storage statistics\<close>

text \<open>
  Modelled from the spec: the scan of \<^verbatim>\<open>StorageStats.updateUserStats\<close>, which is not
  among the sources. Section 4.4 of the specification: go through the nodes of the
  account that are not in trash, sum the sizes of the files, count files and folders.
\<close>

definition recompute :: "fileDoc list \<Rightarrow> oid \<Rightarrow> storageStats" where
  "recompute files u =
     (let live = filter (\<lambda>f. userId f = u \<and> \<not> inTrash f) files
      in \<lparr>statsUser = u,
          usedStorage = sum_list (map fsize (filter (\<lambda>f. \<not> isFolder f) live)),
          totalFiles = length (filter (\<lambda>f. \<not> isFolder f) live),
          totalFolders = length (filter isFolder live)\<rparr>)"

text \<open>
  Modelled from the spec: the write of \<^verbatim>\<open>StorageStats.updateUserStats\<close>, which is
  not among the sources. The recomputed totals replace the record of the account, or
  become its record when it has none.
\<close>

definition upsert :: "storageStats \<Rightarrow> storageStats list \<Rightarrow> storageStats list" where
  "upsert st docs =
     (if \<exists>d \<in> set docs. statsUser d = statsUser st
      then map (\<lambda>d. if statsUser d = statsUser st then st else d) docs
      else docs @ [st])"

definition updateUserStats :: "oid \<Rightarrow> state \<Rightarrow> state" where
  "updateUserStats u s = s\<lparr>stats := upsert (recompute (db s) u) (stats s)\<rparr>"

text \<open>The quota ceiling written into both upload routes, and what
  \<^verbatim>\<open>upload-multiple\<close> calls \<^verbatim>\<open>currentUsed\<close>.\<close>

definition quotaBytes :: nat where
  "quotaBytes = 16106127360"

definition currentUsed :: "state \<Rightarrow> oid \<Rightarrow> nat" where
  "currentUsed s u =
     (case findOne (\<lambda>d. statsUser d = u) (stats s) of None \<Rightarrow> 0 | Some st \<Rightarrow> usedStorage st)"

section \<open>Trash\<close>

text \<open>
  \<^verbatim>\<open>POST /:fileId/trash\<close> reads the clock twice: \<open>t1\<close> is \<^verbatim>\<open>new Date()\<close>, \<open>t2\<close> the
  later \<^verbatim>\<open>Date.now()\<close>, both in milliseconds.
\<close>

definition retentionMs :: nat where
  "retentionMs = 30 * 24 * 60 * 60 * 1000"

definition trash :: "state \<Rightarrow> user \<Rightarrow> oid \<Rightarrow> time \<Rightarrow> time \<Rightarrow> response \<times> state" where
  "trash s u fileId t1 t2 =
     (case findOne (\<lambda>f. docId f = fileId \<and> userId f = uid u) (db s) of
        None \<Rightarrow> (Failure 404 ''File not found'', s)
      | Some f \<Rightarrow>
          (let f' = f\<lparr>inTrash := True, deletedAt := Some t1,
                      permanentDeleteAt := Some (t2 + retentionMs)\<rparr>;
               s1 = s\<lparr>db := save f' (db s)\<rparr>;
               s2 = updateUserStats (uid u) s1
           in case logActivity
                  \<lparr>atype = ''delete'', actFileId = Some (docId f'), fileName = name f',
                   actUserId = Some (uid u), details = []\<rparr> s2 of
                None \<Rightarrow> (Failure 500 ''Server error while moving file to trash'', s2)
              | Some s3 \<Rightarrow> (Message 200 ''Moved to trash'', s3)))"

definition restore :: "state \<Rightarrow> user \<Rightarrow> oid \<Rightarrow> response \<times> state" where
  "restore s u fileId =
     (case findOne (\<lambda>f. docId f = fileId \<and> userId f = uid u \<and> inTrash f) (db s) of
        None \<Rightarrow> (Failure 404 ''File not found in trash'', s)
      | Some f \<Rightarrow>
          (let f' = f\<lparr>inTrash := False, deletedAt := None, permanentDeleteAt := None\<rparr>;
               s1 = s\<lparr>db := save f' (db s)\<rparr>;
               s2 = updateUserStats (uid u) s1
           in case logActivity
                  \<lparr>atype = ''restore'', actFileId = Some (docId f'), fileName = name f',
                   actUserId = Some (uid u), details = []\<rparr> s2 of
                None \<Rightarrow> (Failure 500 ''Server error while restoring file'', s2)
              | Some s3 \<Rightarrow> (Message 200 ''File restored successfully'', s3)))"

section \<open>Upload directory\<close>

definition readdir :: "(string \<times> dnode) list \<Rightarrow> string \<Rightarrow> (string \<times> stat) list option" where
  "readdir d area =
     (case map_of d area of Some (Directory es) \<Rightarrow> Some es | Some NotADirectory \<Rightarrow> None | None \<Rightarrow> None)"

definition existsSync :: "(string \<times> dnode) list \<Rightarrow> path \<Rightarrow> bool" where
  "existsSync d p =
     (case readdir d (fst p) of None \<Rightarrow> False | Some es \<Rightarrow> snd p \<in> fst ` set es)"

definition removeEntry :: "path \<Rightarrow> (string \<times> dnode) list \<Rightarrow> (string \<times> dnode) list" where
  "removeEntry p d =
     map (\<lambda>(area, node).
            if area = fst p
            then (case node of
                    Directory es \<Rightarrow> (area, Directory (filter (\<lambda>(e, st). e \<noteq> snd p) es))
                  | NotADirectory \<Rightarrow> (area, node))
            else (area, node)) d"

text \<open>\<^verbatim>\<open>fs.unlinkSync\<close> throws on a path that does not exist: \<open>None\<close>.\<close>

definition unlinkSync :: "path \<Rightarrow> (string \<times> dnode) list \<Rightarrow> (string \<times> dnode) list option" where
  "unlinkSync p d = (if existsSync d p then Some (removeEntry p d) else None)"

section \<open>Public download\<close>

definition attachmentName :: "fileDoc \<Rightarrow> string" where
  "attachmentName f = (case originalName f of None \<Rightarrow> ''undefined'' | Some n \<Rightarrow> n)"

definition publicDownload :: "state \<Rightarrow> string \<Rightarrow> response \<times> state" where
  "publicDownload s token =
     (case findOne (\<lambda>f. publicUrl f = Some token \<and> \<not> inTrash f) (db s) of
        None \<Rightarrow> (Failure 404 ''File not found'', s)
      | Some f \<Rightarrow>
          if isFolder f then (Failure 400 ''Cannot download folders'', s)
          else
            (case path f of
               None \<Rightarrow> (Failure 404 ''File not found on server'', s)
             | Some p \<Rightarrow>
                 if \<not> existsSync (disk s) p then (Failure 404 ''File not found on server'', s)
                 else
                   (case logActivity
                          \<lparr>atype = ''download_public'', actFileId = Some (docId f),
                           fileName = name f, actUserId = None, details = []\<rparr> s of
                      None \<Rightarrow> (Failure 500 ''Server error while downloading file'', s)
                    | Some s' \<Rightarrow> (Stream (attachmentName f) p, s'))))"

text \<open>A reply that carries the bytes of a file.\<close>

fun sendsBytes :: "response \<Rightarrow> bool" where
  "sendsBytes (Stream n p) = True"
| "sendsBytes r = False"

section \<open>Upload\<close>

subsection \<open>Strings\<close>

definition startsWith :: "string \<Rightarrow> string \<Rightarrow> bool" where
  "startsWith x p = (take (length p) x = p)"

fun includesStr :: "string \<Rightarrow> string \<Rightarrow> bool" where
  "includesStr [] sub = (sub = [])"
| "includesStr (c # cs) sub = (startsWith (c # cs) sub \<or> includesStr cs sub)"

definition getFileTypeFromMime :: "string \<Rightarrow> string" where
  "getFileTypeFromMime mimeType =
     (if startsWith mimeType ''image/'' then ''image''
      else if startsWith mimeType ''video/'' then ''video''
      else if startsWith mimeType ''audio/'' then ''audio''
      else if includesStr mimeType ''pdf'' then ''pdf''
      else if includesStr mimeType ''zip'' \<or> includesStr mimeType ''rar'' \<or> includesStr mimeType ''tar''
              \<or> includesStr mimeType ''7z'' then ''archive''
      else if includesStr mimeType ''text'' \<or> includesStr mimeType ''plain'' then ''text''
      else if includesStr mimeType ''javascript'' \<or> includesStr mimeType ''python''
              \<or> includesStr mimeType ''java'' \<or> includesStr mimeType ''cpp''
              \<or> includesStr mimeType ''html'' \<or> includesStr mimeType ''css'' then ''code''
      else ''document'')"

text \<open>\<^verbatim>\<open>n.toString()\<close> of a non-negative integer.\<close>

definition digit :: "nat \<Rightarrow> char" where
  "digit d = ''0123456789'' ! d"

fun toString :: "nat \<Rightarrow> string" where
  "toString n = (if n < 10 then [digit n] else toString (n div 10) @ [digit (n mod 10)])"

subsection \<open>What multer hands to the routes\<close>

text \<open>
  \<^verbatim>\<open>req.file\<close>: multer has written the bytes to \<open>upPath\<close>, a fresh entry of the
  uploader's directory, before the route runs. Its \<^verbatim>\<open>limits\<close> refuse a file above
  100 MB and \<^verbatim>\<open>upload.array('files', 50)\<close> more than 50 files, so the routes only see
  requests that \<open>multerAccepts\<close>.
\<close>

record upfile =
  originalname :: string
  mimetype :: string
  upSize :: nat
  filename :: string
  upPath :: path

definition fileSizeLimit :: nat where
  "fileSizeLimit = 100 * 1024 * 1024"

definition multerAccepts :: "upfile \<Rightarrow> bool" where
  "multerAccepts file \<longleftrightarrow> upSize file \<le> fileSizeLimit"

text \<open>
  The documents that the routes build with \<^verbatim>\<open>new File({...})\<close>: a folder (the
  create-folder route and the folder pass of \<^verbatim>\<open>upload-multiple\<close>, which differ in the
  metadata) and an uploaded file. The fields that the routes leave out take the defaults
  of the schema.
\<close>

definition newFolder :: "oid \<Rightarrow> user \<Rightarrow> string \<Rightarrow> oid option \<Rightarrow> (string \<times> string) list \<Rightarrow> time \<Rightarrow> fileDoc" where
  "newFolder i u n parent meta now =
     \<lparr>docId = i, userId = uid u, name = n, originalName = None, ftype = ''folder'', fsize = 0,
      path = None, parentFolder = parent, isFolder = True, inTrash = False, deletedAt = None,
      permanentDeleteAt = None, isPublic = False, publicUrl = None, sharedWith = [],
      metadata = meta, createdAt = now, updatedAt = now\<rparr>"

definition newFile :: "oid \<Rightarrow> user \<Rightarrow> upfile \<Rightarrow> oid option \<Rightarrow> time \<Rightarrow> fileDoc" where
  "newFile i u file parent now =
     \<lparr>docId = i, userId = uid u, name = originalname file,
      originalName = Some (originalname file), ftype = getFileTypeFromMime (mimetype file),
      fsize = upSize file, path = Some (upPath file), parentFolder = parent, isFolder = False,
      inTrash = False, deletedAt = None, permanentDeleteAt = None, isPublic = False,
      publicUrl = None, sharedWith = [],
      metadata = [(''uploadMethod'', ''multer''), (''mimetype'', mimetype file)],
      createdAt = now, updatedAt = now\<rparr>"

definition existingInfo :: "fileDoc \<Rightarrow> fileInfo" where
  "existingInfo f =
     \<lparr>infoId = docId f, infoName = name f, infoType = ftype f, infoSize = fsize f,
      uploadDate = createdAt f, infoParent = parentFolder f, uploader = None, url = None\<rparr>"

definition fullInfo :: "user \<Rightarrow> fileDoc \<Rightarrow> fileInfo" where
  "fullInfo u f =
     \<lparr>infoId = docId f, infoName = name f, infoType = ftype f, infoSize = fsize f,
      uploadDate = createdAt f, infoParent = parentFolder f,
      uploader = Some (username u, email u),
      url = Some (''/api/files/'' @ docId f @ ''/download'')\<rparr>"

text \<open>\<^verbatim>\<open>parentFolder\<close> of the body: empty, \<^verbatim>\<open>'root'\<close> and absent all mean the root.\<close>

definition normalizeParent :: "string option \<Rightarrow> oid option" where
  "normalizeParent b =
     (case b of None \<Rightarrow> None | Some x \<Rightarrow> if x = [] \<or> x = ''root'' then None else Some x)"

definition parentOk :: "state \<Rightarrow> user \<Rightarrow> oid option \<Rightarrow> bool" where
  "parentOk s u parent =
     (case parent of
        None \<Rightarrow> True
      | Some p \<Rightarrow>
          findOne (\<lambda>f. docId f = p \<and> userId f = uid u \<and> isFolder f \<and> \<not> inTrash f) (db s) \<noteq> None)"

definition existingSame :: "state \<Rightarrow> user \<Rightarrow> upfile \<Rightarrow> oid option \<Rightarrow> fileDoc option" where
  "existingSame s u file parent =
     findOne (\<lambda>f. userId f = uid u \<and> originalName f = Some (originalname file)
                 \<and> fsize f = upSize file \<and> parentFolder f = parent \<and> \<not> inTrash f) (db s)"

definition QuotaExceededError :: response where
  "QuotaExceededError =
     Failure 400 ''Storage limit exceeded. Please upgrade your plan or free up space.''"

definition InvalidParentError :: response where
  "InvalidParentError = Failure 400 ''Parent folder not found or access denied''"

subsection \<open>\<^verbatim>\<open>POST /upload\<close>\<close>

text \<open>
  The \<^verbatim>\<open>catch\<close> block of the route: it unlinks the uploaded file if it is there and
  answers 500, keeping whatever was already saved.
\<close>

definition uploadFailed :: "state \<Rightarrow> upfile \<Rightarrow> response \<times> state" where
  "uploadFailed s file =
     (Failure 500 ''Server error while uploading file'',
      s\<lparr>disk := removeEntry (upPath file) (disk s)\<rparr>)"

definition rejectUpload :: "state \<Rightarrow> upfile \<Rightarrow> response \<Rightarrow> response \<times> state" where
  "rejectUpload s file r =
     (case unlinkSync (upPath file) (disk s) of
        None \<Rightarrow> uploadFailed s file
      | Some d \<Rightarrow> (r, s\<lparr>disk := d\<rparr>))"

definition overQuota :: "state \<Rightarrow> user \<Rightarrow> nat \<Rightarrow> bool" where
  "overQuota s u n =
     (case findOne (\<lambda>d. statsUser d = uid u) (stats s) of
        None \<Rightarrow> False
      | Some storageStats \<Rightarrow> usedStorage storageStats + n > 16106127360)"

definition upload :: "state \<Rightarrow> user \<Rightarrow> upfile option \<Rightarrow> string option \<Rightarrow> oid \<Rightarrow> time \<Rightarrow> response \<times> state" where
  "upload s u reqFile bodyParent newId now =
     (case reqFile of
        None \<Rightarrow> (Failure 400 ''No file uploaded'', s)
      | Some file \<Rightarrow>
          (let parent = normalizeParent bodyParent in
           if \<not> parentOk s u parent then rejectUpload s file InvalidParentError
           else if overQuota s u (upSize file) then rejectUpload s file QuotaExceededError
           else
             (case existingSame s u file parent of
                Some existing \<Rightarrow>
                  (FileReply 200 ''File already exists, skipped duplicate'' (existingInfo existing),
                   updateUserStats (uid u) s)
              | None \<Rightarrow>
                  (let f = newFile newId u file parent now;
                       s1 = updateUserStats (uid u) (s\<lparr>db := saveNew f (db s)\<rparr>)
                   in case logActivity
                          \<lparr>atype = ''upload'', actFileId = Some (docId f),
                           fileName = originalname file, actUserId = Some (uid u),
                           details = [(''size'', toString (upSize file)), (''type'', ftype f),
                                      (''parentFolder'', orRoot parent)]\<rparr> s1 of
                        None \<Rightarrow> uploadFailed s1 file
                      | Some s2 \<Rightarrow> (FileReply 201 ''File uploaded successfully'' (fullInfo u f), s2)))))"

subsection \<open>\<^verbatim>\<open>POST /upload-multiple\<close>\<close>

text \<open>\<^verbatim>\<open>filePaths\<close> of the body is absent, one string, or an array of strings.\<close>

datatype filePathsField = NoPaths | OnePath string | ManyPaths "string list"

record multiBody =
  parentFolderField :: "string option"
  isFolderField :: "string option"
  filePaths :: filePathsField

definition folderUpload :: "multiBody \<Rightarrow> string list option" where
  "folderUpload b =
     (if isFolderField b = Some ''true'' then
        (case filePaths b of
           NoPaths \<Rightarrow> None
         | OnePath x \<Rightarrow> if x = [] then None else Some [x]
         | ManyPaths xs \<Rightarrow> Some xs)
      else None)"

text \<open>\<^verbatim>\<open>x.split('/')\<close>.\<close>

fun splitSlash :: "string \<Rightarrow> string list" where
  "splitSlash [] = [[]]"
| "splitSlash (c # cs) =
     (if c = CHR ''/'' then [] # splitSlash cs
      else (case splitSlash cs of [] \<Rightarrow> [[c]] | p # ps \<Rightarrow> (c # p) # ps))"

text \<open>
  \<^verbatim>\<open>folderMap\<close> is a plain object: a key that was never stored still reads as the
  inherited member of \<^verbatim>\<open>Object.prototype\<close> when it has the name of one. A parent
  is \<^verbatim>\<open>null\<close>, an id, or such a member (\<open>Inherited\<close>), which no query can cast.
\<close>

datatype parentRef = NoParent | ParentId oid | Inherited

definition prototypeKeys :: "string list" where
  "prototypeKeys = [''constructor'', ''__defineGetter__'', ''__defineSetter__'',
     ''hasOwnProperty'', ''__lookupGetter__'', ''__lookupSetter__'', ''isPrototypeOf'',
     ''propertyIsEnumerable'', ''toString'', ''valueOf'', ''__proto__'', ''toLocaleString'']"

definition folderMapGet :: "(string \<times> oid) list \<Rightarrow> string \<Rightarrow> parentRef" where
  "folderMapGet folderMap k =
     (case map_of folderMap k of
        Some i \<Rightarrow> ParentId i
      | None \<Rightarrow> if k \<in> set prototypeKeys then Inherited else NoParent)"

fun parentId :: "parentRef \<Rightarrow> oid option" where
  "parentId (ParentId i) = Some i"
| "parentId r = None"

definition ofParent :: "oid option \<Rightarrow> parentRef" where
  "ofParent p = (case p of None \<Rightarrow> NoParent | Some i \<Rightarrow> ParentId i)"

definition extendPath :: "string \<Rightarrow> string \<Rightarrow> string" where
  "extendPath currentPath folderName =
     currentPath @ (if currentPath \<noteq> [] then ''/'' else []) @ folderName"

text \<open>
  The first pass creates the folders of one relative path. It works on the documents,
  the folder map and the count of ids drawn so far; \<open>Inl\<close> is a query that threw, with
  the documents saved until then.
\<close>

type_synonym folderPass = "fileDoc list \<times> (string \<times> oid) list \<times> nat"

fun makeFolders :: "user \<Rightarrow> (nat \<Rightarrow> oid) \<Rightarrow> time \<Rightarrow> string list \<Rightarrow> parentRef \<Rightarrow> string \<Rightarrow> folderPass
                    \<Rightarrow> fileDoc list + folderPass" where
  "makeFolders u ids now [] currentParent currentPath st = Inr st"
| "makeFolders u ids now (folderName # rest) currentParent currentPath (files, folderMap, k) =
     (let cp = extendPath currentPath folderName in
      case folderMapGet folderMap cp of
        ParentId i \<Rightarrow> makeFolders u ids now rest (ParentId i) cp (files, folderMap, k)
      | Inherited \<Rightarrow> makeFolders u ids now rest Inherited cp (files, folderMap, k)
      | NoParent \<Rightarrow>
          if currentParent = Inherited then Inl files
          else
            (case findOne (\<lambda>f. name f = folderName \<and> userId f = uid u
                               \<and> parentFolder f = parentId currentParent
                               \<and> isFolder f \<and> \<not> inTrash f) files of
               Some existingFolder \<Rightarrow>
                 makeFolders u ids now rest (ParentId (docId existingFolder)) cp
                   (files, folderMap @ [(cp, docId existingFolder)], k)
             | None \<Rightarrow>
                 makeFolders u ids now rest (ParentId (ids k)) cp
                   (saveNew (newFolder (ids k) u folderName (parentId currentParent)
                               [(''createdBy'', ''folderUpload'')] now) files,
                    folderMap @ [(cp, ids k)], Suc k)))"

fun makeAllFolders :: "user \<Rightarrow> (nat \<Rightarrow> oid) \<Rightarrow> time \<Rightarrow> oid option \<Rightarrow> string list \<Rightarrow> folderPass
                       \<Rightarrow> fileDoc list + folderPass" where
  "makeAllFolders u ids now parent [] st = Inr st"
| "makeAllFolders u ids now parent (filePath # rest) st =
     (case makeFolders u ids now (butlast (splitSlash filePath)) (ofParent parent) [] st of
        Inl files \<Rightarrow> Inl files
      | Inr st' \<Rightarrow> makeAllFolders u ids now parent rest st')"

text \<open>The parent of the \<open>i\<close>-th file: the deepest prefix of its relative path that the
  folder map knows. \<open>None\<close> is \<^verbatim>\<open>split\<close> called on a path that is not there.\<close>

fun deepestFolder :: "(string \<times> oid) list \<Rightarrow> string list \<Rightarrow> string \<Rightarrow> parentRef \<Rightarrow> parentRef" where
  "deepestFolder folderMap [] currentPath fileParentFolder = fileParentFolder"
| "deepestFolder folderMap (part # rest) currentPath fileParentFolder =
     (let cp = extendPath currentPath part in
      deepestFolder folderMap rest cp
        (case folderMapGet folderMap cp of NoParent \<Rightarrow> fileParentFolder | r \<Rightarrow> r))"

definition fileParent :: "oid option \<Rightarrow> string list option \<Rightarrow> (string \<times> oid) list \<Rightarrow> nat \<Rightarrow> parentRef option" where
  "fileParent parent paths folderMap i =
     (case paths of
        None \<Rightarrow> Some (ofParent parent)
      | Some filePathArray \<Rightarrow>
          if i < length filePathArray
          then Some (deepestFolder folderMap (butlast (splitSlash (filePathArray ! i))) []
                       (ofParent parent))
          else None)"

text \<open>
  The second pass saves the files. It threads the state, the reply built so far, the
  total size and the count of ids drawn; \<open>Inl\<close> is an exception, with the state it
  leaves behind.
\<close>

type_synonym filePass = "state \<times> fileInfo list \<times> nat \<times> nat"

fun saveFiles :: "user \<Rightarrow> (nat \<Rightarrow> oid) \<Rightarrow> time \<Rightarrow> oid option \<Rightarrow> string list option
                    \<Rightarrow> (string \<times> oid) list \<Rightarrow> upfile list \<Rightarrow> nat \<Rightarrow> filePass \<Rightarrow> state + filePass" where
  "saveFiles u ids now parent paths folderMap [] i st = Inr st"
| "saveFiles u ids now parent paths folderMap (file # rest) i (s, uploadedFiles, totalSize, k) =
     (case fileParent parent paths folderMap i of
        None \<Rightarrow> Inl s
      | Some Inherited \<Rightarrow> Inl s
      | Some fileParentFolder \<Rightarrow>
          (case existingSame s u file (parentId fileParentFolder) of
             Some existing \<Rightarrow>
               (case logActivity
                       \<lparr>atype = ''upload_skipped_duplicate'', actFileId = Some (docId existing),
                        fileName = originalname file, actUserId = Some (uid u),
                        details = [(''reason'', ''duplicate_detected''),
                                   (''parentFolder'', orRoot (parentId fileParentFolder))]\<rparr> s of
                  None \<Rightarrow> Inl s
                | Some s' \<Rightarrow>
                    saveFiles u ids now parent paths folderMap rest (Suc i)
                      (s', uploadedFiles @ [fullInfo u existing], totalSize, k))
           | None \<Rightarrow>
               (let f = newFile (ids k) u file (parentId fileParentFolder) now;
                    s1 = s\<lparr>db := saveNew f (db s)\<rparr>
                in case logActivity
                       \<lparr>atype = ''upload'', actFileId = Some (docId f),
                        fileName = originalname file, actUserId = Some (uid u),
                        details = [(''size'', toString (upSize file)), (''type'', ftype f),
                                   (''parentFolder'', orRoot (parentId fileParentFolder))]\<rparr> s1 of
                     None \<Rightarrow> Inl s1
                   | Some s2 \<Rightarrow>
                       saveFiles u ids now parent paths folderMap rest (Suc i)
                         (s2, uploadedFiles @ [fullInfo u f], totalSize + upSize file, Suc k))))"

text \<open>Both clean-up loops unlink every uploaded file that is still there.\<close>

definition unlinkAll :: "upfile list \<Rightarrow> (string \<times> dnode) list \<Rightarrow> (string \<times> dnode) list" where
  "unlinkAll files d = fold (\<lambda>file. removeEntry (upPath file)) files d"

definition multiFailed :: "state \<Rightarrow> upfile list \<Rightarrow> response \<times> state" where
  "multiFailed s files =
     (Failure 500 ''Server error while uploading files'', s\<lparr>disk := unlinkAll files (disk s)\<rparr>)"

definition uploadSize :: "upfile list \<Rightarrow> nat" where
  "uploadSize files = fold (\<lambda>file sum. sum + upSize file) files 0"

definition uploadMultiple :: "state \<Rightarrow> user \<Rightarrow> upfile list \<Rightarrow> multiBody \<Rightarrow> (nat \<Rightarrow> oid) \<Rightarrow> time
                              \<Rightarrow> response \<times> state" where
  "uploadMultiple s u files b ids now =
     (if files = [] then (Failure 400 ''No files uploaded'', s)
      else
        (let parent = normalizeParent (parentFolderField b) in
         if \<not> parentOk s u parent
         then (InvalidParentError, s\<lparr>disk := unlinkAll files (disk s)\<rparr>)
         else if currentUsed s (uid u) + uploadSize files > 16106127360
         then (QuotaExceededError, s\<lparr>disk := unlinkAll files (disk s)\<rparr>)
         else
           (case (case folderUpload b of
                    None \<Rightarrow> Inr (db s, [], 0)
                  | Some filePathArray \<Rightarrow>
                      makeAllFolders u ids now parent filePathArray (db s, [], 0)) of
              Inl saved \<Rightarrow> multiFailed (s\<lparr>db := saved\<rparr>) files
            | Inr (saved, folderMap, k) \<Rightarrow>
                (case saveFiles u ids now parent (folderUpload b) folderMap files 0
                        (s\<lparr>db := saved\<rparr>, [], 0, k) of
                   Inl s' \<Rightarrow> multiFailed s' files
                 | Inr (s', uploadedFiles, totalSize, k') \<Rightarrow>
                     (FilesReply 201
                        (toString (length uploadedFiles) @ '' files uploaded successfully'')
                        uploadedFiles totalSize,
                      updateUserStats (uid u) s')))))"

section \<open>Download and the fallback search\<close>

text \<open>
  A name is the list of the bytes of its UTF-8 form; names are well-formed, so one name
  includes another as a list of bytes exactly when it does as a JavaScript string, and
  the dot and the slash are single bytes. \<open>extname\<close> and \<open>stem\<close> are
  \<^verbatim>\<open>path.extname\<close> and \<^verbatim>\<open>path.basename(x, path.extname(x))\<close> on the last
  segment of a POSIX path. \<^verbatim>\<open>String.prototype.toLowerCase\<close> is JavaScript's, not the
  repository's: the search takes it as a parameter \<open>lower\<close>.
\<close>

definition lastSegment :: "string \<Rightarrow> string" where
  "lastSegment x = rev (takeWhile (\<lambda>c. c \<noteq> CHR ''/'') (dropWhile (\<lambda>c. c = CHR ''/'') (rev x)))"

definition extname :: "string \<Rightarrow> string" where
  "extname x =
     (let seg = lastSegment x;
          ext = CHR ''.'' # rev (takeWhile (\<lambda>c. c \<noteq> CHR ''.'') (rev seg))
      in if CHR ''.'' \<notin> set seg \<or> length ext = length seg \<or> seg = ''..'' then [] else ext)"

definition stem :: "string \<Rightarrow> string" where
  "stem x = (let seg = lastSegment x in take (length seg - length (extname x)) seg)"

text \<open>\<^verbatim>\<open>toLowerCase\<close> on a string of ASCII characters; the examples use it.\<close>

definition asciiLower :: "string \<Rightarrow> string" where
  "asciiLower x = map lowerOf x"

text \<open>\<^verbatim>\<open>baseName\<close> of the node, \<open>None\<close> for \<^verbatim>\<open>null\<close>.\<close>

definition baseName :: "fileDoc \<Rightarrow> string option" where
  "baseName f =
     (case originalName f of
        None \<Rightarrow> None
      | Some n \<Rightarrow> if n = [] then None else Some (stem n))"

definition nameMatches :: "(string \<Rightarrow> string) \<Rightarrow> fileDoc \<Rightarrow> string \<Rightarrow> bool" where
  "nameMatches lower f e =
     (case baseName f of
        None \<Rightarrow> False
      | Some b \<Rightarrow> b \<noteq> [] \<and> includesStr (lower (stem e)) (lower b))"

text \<open>The loop over the entries of one directory, with the variable \<^verbatim>\<open>found\<close>.\<close>

fun scanEntries :: "(string \<Rightarrow> string) \<Rightarrow> fileDoc \<Rightarrow> string \<Rightarrow> (string \<times> stat) list \<Rightarrow> path option \<Rightarrow> path option" where
  "scanEntries lower f area [] found = found"
| "scanEntries lower f area ((e, st) # rest) found =
     (case st of
        RegularFile sz \<Rightarrow>
          (let sizeMatches = (fsize f \<noteq> 0 \<and> sz = fsize f) in
           if sizeMatches \<and> nameMatches lower f e then Some (area, e)
           else if fsize f = 0 \<and> nameMatches lower f e then Some (area, e)
           else if found = None \<and> nameMatches lower f e then scanEntries lower f area rest (Some (area, e))
           else scanEntries lower f area rest found)
      | NotAFile \<Rightarrow> scanEntries lower f area rest found
      | Unreadable \<Rightarrow> scanEntries lower f area rest found)"

fun searchAll :: "(string \<Rightarrow> string) \<Rightarrow> fileDoc \<Rightarrow> (string \<times> dnode) list \<Rightarrow> path option" where
  "searchAll lower f [] = None"
| "searchAll lower f ((area, node) # rest) =
     (case node of
        Directory entries \<Rightarrow>
          (case scanEntries lower f area entries None of
             Some p \<Rightarrow> Some p
           | None \<Rightarrow> searchAll lower f rest)
      | NotADirectory \<Rightarrow> searchAll lower f rest)"

definition locate :: "(string \<Rightarrow> string) \<Rightarrow> (string \<times> dnode) list \<Rightarrow> fileDoc \<Rightarrow> path option" where
  "locate lower d f =
     (case (case readdir d (userId f) of
              Some entries \<Rightarrow> scanEntries lower f (userId f) entries None
            | None \<Rightarrow> None) of
        Some p \<Rightarrow> Some p
      | None \<Rightarrow> searchAll lower f d)"

text \<open>\<^verbatim>\<open>File.updateOne({_id}, {$set: {path}})\<close>.\<close>

fun updateOnePath :: "oid \<Rightarrow> path \<Rightarrow> fileDoc list \<Rightarrow> fileDoc list" where
  "updateOnePath i p [] = []"
| "updateOnePath i p (g # gs) =
     (if docId g = i then g\<lparr>path := Some p\<rparr> # gs else g # updateOnePath i p gs)"

definition ContentMissingError :: response where
  "ContentMissingError =
     Failure 404 ''File found in DB but not on server (file not found on server)''"

definition sendFile :: "state \<Rightarrow> user \<Rightarrow> fileDoc \<Rightarrow> path \<Rightarrow> response \<times> state" where
  "sendFile s u f p =
     (case logActivity
            \<lparr>atype = ''download'', actFileId = Some (docId f), fileName = name f,
             actUserId = Some (uid u), details = []\<rparr> s of
        None \<Rightarrow> (Failure 500 ''Server error while downloading file'', s)
      | Some s' \<Rightarrow> (Stream (attachmentName f) p, s'))"

definition stalePath :: "state \<Rightarrow> fileDoc \<Rightarrow> bool" where
  "stalePath s f = (case path f of None \<Rightarrow> True | Some p \<Rightarrow> \<not> existsSync (disk s) p)"

definition downloadFailed :: response where
  "downloadFailed = Failure 500 ''Server error while downloading file''"

definition download :: "(string \<Rightarrow> oid option) \<Rightarrow> (string \<Rightarrow> string) \<Rightarrow> state \<Rightarrow> user \<Rightarrow> string
                          \<Rightarrow> response \<times> state" where
  "download cast lower s u fileId =
     (case cast fileId of
        None \<Rightarrow> (downloadFailed, s)
      | Some i \<Rightarrow>
          (case findOne (\<lambda>f. docId f = i
                            \<and> (userId f = uid u \<or> uid u \<in> fst ` set (sharedWith f))) (db s) of
             None \<Rightarrow> (Failure 404 ''File not found or access denied'', s)
           | Some f \<Rightarrow>
               if isFolder f then (Failure 400 ''Cannot download folders'', s)
               else
                 (case path f of
                    Some p \<Rightarrow>
                      if existsSync (disk s) p then sendFile s u f p
                      else
                        (case locate lower (disk s) f of
                           Some found \<Rightarrow>
                             sendFile (s\<lparr>db := updateOnePath (docId f) found (db s)\<rparr>) u
                               (f\<lparr>path := Some found\<rparr>) found
                         | None \<Rightarrow> (ContentMissingError, s))
                  | None \<Rightarrow>
                      (case locate lower (disk s) f of
                         Some found \<Rightarrow>
                           sendFile (s\<lparr>db := updateOnePath (docId f) found (db s)\<rparr>) u
                             (f\<lparr>path := Some found\<rparr>) found
                       | None \<Rightarrow> (ContentMissingError, s)))))"

subsection \<open>The search as the specification words it\<close>

text \<open>
  Section 4.5 of the specification: the owner's area first, by size and name; then all
  areas, by size and name; a match by name alone only when no candidate matches by size.
  \<open>locateSpec\<close> follows these words; it is compared with \<open>locate\<close> below.
\<close>

fun isBoth :: "(string \<Rightarrow> string) \<Rightarrow> fileDoc \<Rightarrow> string \<times> stat \<Rightarrow> bool" where
  "isBoth lower f (e, RegularFile sz) = (sz = fsize f \<and> nameMatches lower f e)"
| "isBoth lower f (e, st) = False"

fun isNamed :: "(string \<Rightarrow> string) \<Rightarrow> fileDoc \<Rightarrow> string \<times> stat \<Rightarrow> bool" where
  "isNamed lower f (e, RegularFile sz) = nameMatches lower f e"
| "isNamed lower f (e, st) = False"

definition firstIn :: "(string \<times> stat \<Rightarrow> bool) \<Rightarrow> string \<Rightarrow> (string \<times> stat) list \<Rightarrow> path option" where
  "firstIn q area entries = map_option (\<lambda>c. (area, fst c)) (find q entries)"

fun firstInAll :: "(string \<times> stat \<Rightarrow> bool) \<Rightarrow> (string \<times> dnode) list \<Rightarrow> path option" where
  "firstInAll q [] = None"
| "firstInAll q ((area, node) # rest) =
     (case node of
        Directory entries \<Rightarrow>
          (case firstIn q area entries of Some p \<Rightarrow> Some p | None \<Rightarrow> firstInAll q rest)
      | NotADirectory \<Rightarrow> firstInAll q rest)"

definition ownArea :: "(string \<times> dnode) list \<Rightarrow> fileDoc \<Rightarrow> (string \<times> stat) list" where
  "ownArea d f = (case readdir d (userId f) of None \<Rightarrow> [] | Some entries \<Rightarrow> entries)"

definition locateSpec :: "(string \<Rightarrow> string) \<Rightarrow> (string \<times> dnode) list \<Rightarrow> fileDoc \<Rightarrow> path option" where
  "locateSpec lower d f =
     (case firstIn (isBoth lower f) (userId f) (ownArea d f) of
        Some p \<Rightarrow> Some p
      | None \<Rightarrow>
          (case firstInAll (isBoth lower f) d of
             Some p \<Rightarrow> Some p
           | None \<Rightarrow>
               (case firstIn (isNamed lower f) (userId f) (ownArea d f) of
                  Some p \<Rightarrow> Some p
                | None \<Rightarrow> firstInAll (isNamed lower f) d)))"

subsection \<open>The search as the route performs it\<close>

text \<open>
  What one directory yields: for a node with a size, its first entry that matches by size
  and name, else its first entry that matches by name; for a node of size 0, its first
  entry that matches by name. The areas are tried in turn, the owner's first, and the
  first one that yields anything decides.
\<close>

definition dirChoice :: "(string \<Rightarrow> string) \<Rightarrow> fileDoc \<Rightarrow> string \<Rightarrow> (string \<times> stat) list \<Rightarrow> path option" where
  "dirChoice lower f area entries =
     (if fsize f = 0 then firstIn (isNamed lower f) area entries
      else (case firstIn (isBoth lower f) area entries of
              Some p \<Rightarrow> Some p
            | None \<Rightarrow> firstIn (isNamed lower f) area entries))"

fun firstChoice :: "(string \<Rightarrow> string) \<Rightarrow> fileDoc \<Rightarrow> (string \<times> dnode) list \<Rightarrow> path option" where
  "firstChoice lower f [] = None"
| "firstChoice lower f ((area, node) # rest) =
     (case node of
        Directory entries \<Rightarrow>
          (case dirChoice lower f area entries of Some p \<Rightarrow> Some p | None \<Rightarrow> firstChoice lower f rest)
      | NotADirectory \<Rightarrow> firstChoice lower f rest)"

definition resolved :: "(string \<Rightarrow> string) \<Rightarrow> (string \<times> dnode) list \<Rightarrow> fileDoc \<Rightarrow> path option" where
  "resolved lower d f =
     (case dirChoice lower f (userId f) (ownArea d f) of
        Some p \<Rightarrow> Some p
      | None \<Rightarrow> firstChoice lower f d)"

section \<open>Example accounts and states\<close>

definition ann :: user where
  "ann = \<lparr>uid = ''u1'', username = ''ann'', email = ''ann@example.org''\<rparr>"

definition userCreated :: "(string \<times> string) list" where
  "userCreated = [(''folderType'', ''user_created'')]"

definition folderX :: fileDoc where "folderX = newFolder ''x'' ann ''X'' None userCreated 10"
definition folderY :: fileDoc where "folderY = newFolder ''y'' ann ''Y'' (Some ''x'') userCreated 20"
definition folderZ :: fileDoc where "folderZ = newFolder ''z'' ann ''Z'' None userCreated 30"

definition exTree :: state where
  "exTree = \<lparr>db = [folderX, folderY, folderZ], stats = [], activities = [], disk = []\<rparr>"

definition loopFolder :: fileDoc where
  "loopFolder = newFolder ''l'' ann ''L'' (Some ''l'') userCreated 10"

definition aTxt :: upfile where
  "aTxt = \<lparr>originalname = ''a.txt'', mimetype = ''text/plain'', upSize = 5,
           filename = ''a-1.txt'', upPath = (''u1'', ''a-1.txt'')\<rparr>"

definition fileA :: fileDoc where "fileA = newFile ''a'' ann aTxt None 40"

definition exFiles :: state where
  "exFiles = \<lparr>db = [folderX, fileA], stats = [], activities = [],
              disk = [(''u1'', Directory [(''a-1.txt'', RegularFile 5)])]\<rparr>"

text \<open>
  An account with ids as Mongoose prints them: folder \<open>Y\<close> lies in folder \<open>X\<close>, folder
  \<open>Z\<close> and the file a.txt lie in the root, and folder \<open>T\<close> is in trash. \<open>upperX\<close> is
  the id of \<open>X\<close> written with an upper-case digit.
\<close>

definition idX :: oid where "idX = ''650a00000000000000000001''"
definition idY :: oid where "idY = ''650a00000000000000000002''"
definition idZ :: oid where "idZ = ''650a00000000000000000003''"
definition idA :: oid where "idA = ''650a00000000000000000004''"
definition idT :: oid where "idT = ''650a00000000000000000005''"
definition idR :: oid where "idR = ''650a00000000000000000006''"
definition upperX :: string where "upperX = ''650A00000000000000000001''"

definition mX :: fileDoc where "mX = newFolder idX ann ''X'' None userCreated 10"
definition mY :: fileDoc where "mY = newFolder idY ann ''Y'' (Some idX) userCreated 20"
definition mZ :: fileDoc where "mZ = newFolder idZ ann ''Z'' None userCreated 30"
definition mA :: fileDoc where "mA = newFile idA ann aTxt None 40"

definition mT :: fileDoc where
  "mT = (newFolder idT ann ''T'' None userCreated 50)
          \<lparr>inTrash := True, deletedAt := Some 60, permanentDeleteAt := Some (60 + retentionMs)\<rparr>"

definition exMove :: state where
  "exMove = \<lparr>db = [mX, mY, mZ, mA, mT], stats = [], activities = [],
             disk = [(''u1'', Directory [(''a-1.txt'', RegularFile 5)])]\<rparr>"

definition publicA :: fileDoc where
  "publicA = fileA\<lparr>isPublic := True, publicUrl := Some ''tok''\<rparr>"

definition publicDir :: fileDoc where
  "publicDir = folderX\<lparr>isPublic := True, publicUrl := Some ''dir''\<rparr>"

definition exPublic :: state where
  "exPublic = \<lparr>db = [publicA, publicDir], stats = [], activities = [],
               disk = [(''u1'', Directory [(''a-1.txt'', RegularFile 5)])]\<rparr>"

definition exFresh :: state where
  "exFresh = \<lparr>db = [], stats = [], activities = [],
              disk = [(''u1'', Directory [(''a-1.txt'', RegularFile 5)])]\<rparr>"

definition aTxt2 :: upfile where
  "aTxt2 = aTxt\<lparr>filename := ''a-2.txt'', upPath := (''u1'', ''a-2.txt'')\<rparr>"

definition bTxt :: upfile where
  "bTxt = \<lparr>originalname = ''b.txt'', mimetype = ''text/plain'', upSize = 7,
           filename = ''b-1.txt'', upPath = (''u1'', ''b-1.txt'')\<rparr>"

text \<open>The state after the first upload of a.txt, with the second copy persisted by multer.\<close>

definition exDup :: state where
  "exDup = (snd (upload exFresh ann (Some aTxt) None ''a'' 40))
             \<lparr>disk := [(''u1'', Directory [(''a-1.txt'', RegularFile 5), (''a-2.txt'', RegularFile 5)])]\<rparr>"

definition exBatch :: state where
  "exBatch = (snd (upload exFresh ann (Some aTxt) None ''a'' 40))
             \<lparr>disk := [(''u1'', Directory [(''a-1.txt'', RegularFile 5), (''b-1.txt'', RegularFile 7),
                                            (''a-2.txt'', RegularFile 5)])]\<rparr>"

definition freshIds :: "nat \<Rightarrow> oid" where
  "freshIds k = ''n'' @ toString k"

definition plainBatch :: multiBody where
  "plainBatch = \<lparr>parentFolderField = None, isFolderField = None, filePaths = NoPaths\<rparr>"

definition exFull :: state where
  "exFull = \<lparr>db = [fileA],
             stats = [\<lparr>statsUser = ''u1'', usedStorage = 16106127358, totalFiles = 200, totalFolders = 0\<rparr>],
             activities = [],
             disk = [(''u1'', Directory [(''a-1.txt'', RegularFile 5), (''b-1.txt'', RegularFile 7)])]\<rparr>"

definition reportUp :: upfile where
  "reportUp = \<lparr>originalname = ''report.pdf'', mimetype = ''application/pdf'', upSize = 10,
               filename = ''report-1.pdf'', upPath = (''u1'', ''report-1.pdf'')\<rparr>"

definition reportDoc :: fileDoc where "reportDoc = newFile idR ann reportUp None 40"

text \<open>The stored path of the report is gone; the owner's area holds an older report of
  another size, the area of a second account a file of the same size.\<close>

definition exStale :: state where
  "exStale = \<lparr>db = [reportDoc], stats = [], activities = [],
              disk = [(''u1'', Directory [(''notes.txt'', RegularFile 10), (''Report-old.pdf'', RegularFile 7)]),
                      (''u2'', Directory [(''report-2.pdf'', RegularFile 10)])]\<rparr>"

definition exGone :: state where
  "exGone = \<lparr>db = [reportDoc], stats = [], activities = [],
             disk = [(''u1'', Directory [(''notes.txt'', RegularFile 10)])]\<rparr>"

section \<open>Facts about collections and the parent walk\<close>

lemma findOne_Some: "findOne q docs = Some d \<Longrightarrow> q d \<and> d \<in> set docs"
  unfolding findOne_def by (induction docs) (auto split: if_splits)

lemma findOne_None: "findOne q docs = None \<longleftrightarrow> (\<forall>d \<in> set docs. \<not> q d)"
  unfolding findOne_def by (auto simp: find_None_iff)

lemma findOne_weaken:
  "findOne q docs = Some d \<Longrightarrow> (\<And>x. q x \<Longrightarrow> q' x) \<Longrightarrow> findOne q' docs \<noteq> None"
  by (auto simp: findOne_None dest: findOne_Some)

lemma findById_docId: "findById files i = Some f \<Longrightarrow> docId f = i"
  unfolding findById_def by (drule findOne_Some) simp

lemma atOrBelow_check: "atOrBelow files b a \<Longrightarrow> checkIfSubfolder files (Some b) a = Some True"
proof (induction rule: atOrBelow.induct)
  case (self b f)
  then show ?case
    by (subst checkIfSubfolder.simps) (simp add: findById_docId)
next
  case (step b f p a)
  then show ?case
    by (subst checkIfSubfolder.simps) simp
qed

lemma check_atOrBelow:
  assumes "checkIfSubfolder files cur a = Some r"
  shows "r \<longrightarrow> (\<exists>b. cur = Some b \<and> atOrBelow files b a)"
proof (rule checkIfSubfolder.raw_induct
    [where P = "\<lambda>files cur a r. r \<longrightarrow> (\<exists>b. cur = Some b \<and> atOrBelow files b a)", OF _ assms])
  fix rec files cur a r
  assume IH: "\<And>files cur a r. rec files cur a = Some r \<Longrightarrow>
                 r \<longrightarrow> (\<exists>b. cur = Some b \<and> atOrBelow files b a)"
    and body: "(case cur of None \<Rightarrow> Some False
        | Some c \<Rightarrow> (case findById files c of None \<Rightarrow> Some False
           | Some folder \<Rightarrow> if docId folder = a then Some True
                           else rec files (parentFolder folder) a)) = Some r"
  show "r \<longrightarrow> (\<exists>b. cur = Some b \<and> atOrBelow files b a)"
  proof
    assume r
    from body \<open>r\<close> obtain c f where c: "cur = Some c" and f: "findById files c = Some f"
      by (auto split: option.splits)
    show "\<exists>b. cur = Some b \<and> atOrBelow files b a"
    proof (cases "docId f = a")
      case True
      then show ?thesis using c f by (auto dest: findById_docId intro: atOrBelow.self)
    next
      case False
      with body c f have "rec files (parentFolder f) a = Some r" by simp
      from IH[OF this] \<open>r\<close> obtain p where "parentFolder f = Some p" "atOrBelow files p a" by auto
      then show ?thesis using c f by (auto intro: atOrBelow.step)
    qed
  qed
qed

lemma check_reachesRoot:
  assumes "checkIfSubfolder files cur a = Some r"
  shows "\<not> r \<longrightarrow> reachesRoot files cur"
proof (rule checkIfSubfolder.raw_induct
    [where P = "\<lambda>files cur a r. \<not> r \<longrightarrow> reachesRoot files cur", OF _ assms])
  fix rec files cur a r
  assume IH: "\<And>files cur a r. rec files cur a = Some r \<Longrightarrow> \<not> r \<longrightarrow> reachesRoot files cur"
    and body: "(case cur of None \<Rightarrow> Some False
        | Some c \<Rightarrow> (case findById files c of None \<Rightarrow> Some False
           | Some folder \<Rightarrow> if docId folder = a then Some True
                           else rec files (parentFolder folder) a)) = Some r"
  show "\<not> r \<longrightarrow> reachesRoot files cur"
  proof
    assume nr: "\<not> r"
    show "reachesRoot files cur"
    proof (cases cur)
      case None
      then show ?thesis by (simp add: reachesRoot.root)
    next
      case (Some c)
      show ?thesis
      proof (cases "findById files c")
        case None
        then show ?thesis using Some by (simp add: reachesRoot.missing)
      next
        case (Some f)
        with body \<open>cur = Some c\<close> nr have "rec files (parentFolder f) a = Some r"
          by (simp split: if_splits)
        from IH[OF this] nr have "reachesRoot files (parentFolder f)" by simp
        then show ?thesis using Some \<open>cur = Some c\<close> by (auto intro: reachesRoot.up)
      qed
    qed
  qed
qed

lemma reachesRoot_check:
  "reachesRoot files cur \<Longrightarrow> \<forall>b. cur = Some b \<longrightarrow> \<not> atOrBelow files b a
     \<Longrightarrow> checkIfSubfolder files cur a = Some False"
proof (induction rule: reachesRoot.induct)
  case root
  show ?case by (subst checkIfSubfolder.simps) simp
next
  case (missing c)
  then show ?case by (subst checkIfSubfolder.simps) simp
next
  case (up c f)
  have ne: "docId f \<noteq> a" using up.hyps(1) up.prems by (auto dest: findById_docId intro: atOrBelow.self)
  have "\<forall>b. parentFolder f = Some b \<longrightarrow> \<not> atOrBelow files b a"
    using up.hyps(1) up.prems by (auto intro: atOrBelow.step)
  then have "checkIfSubfolder files (parentFolder f) a = Some False" by (rule up.IH)
  then show ?case using up.hyps(1) ne by (subst checkIfSubfolder.simps) simp
qed

lemma findById_save_other: "c \<noteq> docId f' \<Longrightarrow> findById (save f' files) c = findById files c"
  unfolding findById_def findOne_def save_def by (induction files) auto

lemma findById_save_same:
  "findById files (docId f') \<noteq> None \<Longrightarrow> findById (save f' files) (docId f') = Some f'"
  unfolding findById_def findOne_def save_def by (induction files) auto

lemma findById_save_None: "findById files c = None \<Longrightarrow> findById (save f' files) c = None"
  unfolding findById_def findOne_def save_def by (induction files) (auto split: if_splits)

lemma check_after_save:
  "reachesRoot files cur \<Longrightarrow> \<forall>b. cur = Some b \<longrightarrow> \<not> atOrBelow files b (docId f')
     \<Longrightarrow> checkIfSubfolder (save f' files) cur (docId f') = Some False"
proof (induction rule: reachesRoot.induct)
  case root
  show ?case by (subst checkIfSubfolder.simps) simp
next
  case (missing c)
  then have "findById (save f' files) c = None" by (simp add: findById_save_None)
  then show ?case by (subst checkIfSubfolder.simps) simp
next
  case (up c f)
  have ne: "c \<noteq> docId f'" using up.hyps(1) up.prems by (auto intro: atOrBelow.self)
  have c: "docId f = c" using up.hyps(1) by (rule findById_docId)
  have "\<forall>b. parentFolder f = Some b \<longrightarrow> \<not> atOrBelow files b (docId f')"
    using up.hyps(1) up.prems by (auto intro: atOrBelow.step)
  then have "checkIfSubfolder (save f' files) (parentFolder f) (docId f') = Some False" by (rule up.IH)
  then show ?case using up.hyps(1) ne c
    by (subst checkIfSubfolder.simps) (simp add: findById_save_other)
qed

lemma distinct_docId_eq:
  "distinct (map docId files) \<Longrightarrow> f \<in> set files \<Longrightarrow> g \<in> set files \<Longrightarrow> docId f = docId g \<Longrightarrow> f = g"
  by (auto simp: distinct_map inj_on_def)

lemmas example_defs = exTree_def exFiles_def folderX_def folderY_def folderZ_def
  fileA_def aTxt_def newFolder_def newFile_def ann_def userCreated_def
  publicA_def publicDir_def exPublic_def

lemmas move_examples = exMove_def mX_def mY_def mZ_def mA_def mT_def idX_def idY_def idZ_def
  idA_def idT_def upperX_def aTxt_def newFolder_def newFile_def ann_def userCreated_def

lemma hexCast_ids:
  "hexCast idX = Some idX" "hexCast idY = Some idY" "hexCast idZ = Some idZ"
  "hexCast idA = Some idA" "hexCast idT = Some idT" "hexCast idR = Some idR"
  "hexCast upperX = Some idX"
  by (simp_all add: hexCast_def lowerOf_def idX_def idY_def idZ_def idA_def idT_def idR_def
      upperX_def)

lemmas hexCast_lits =
  hexCast_ids[unfolded idX_def idY_def idZ_def idA_def idT_def idR_def upperX_def]

lemmas move_defs = move_def targetRef_def resolveName_def byId_def byName_def normalizeRoot_def
  checkTarget_def commitMove_def moveFailed_def logActivity_def validActivity_def
  activityTypes_def save_def SelfMoveError_def CycleError_def findById_def findOne_def
  hexCast_lits

lemma exTree_walk_z: "checkIfSubfolder (db exTree) (Some ''z'') ''x'' = Some False"
  by (simp add: checkIfSubfolder.simps findById_def findOne_def exTree_def folderX_def folderY_def
      folderZ_def newFolder_def)

lemma exTree_walk_y: "checkIfSubfolder (db exTree) (Some ''y'') ''x'' = Some True"
  by (simp add: checkIfSubfolder.simps findById_def findOne_def exTree_def folderX_def folderY_def
      folderZ_def newFolder_def)


lemma targetRef_normal: "targetRef s u b = Inr t \<Longrightarrow> t \<noteq> Str [] \<and> t \<noteq> Str ''root''"
  by (auto simp: targetRef_def normalizeRoot_def split: sum.splits if_splits)

lemma targetRef_byId:
  "targetFolderId b = Some x \<Longrightarrow> x \<noteq> [] \<Longrightarrow> x \<noteq> ''root'' \<Longrightarrow> targetRef s u b = Inr (Str x)"
  by (simp add: targetRef_def resolveName_def normalizeRoot_def Let_def split: option.splits)

lemma targetRef_byName:
  "targetRef s u b = Inr (Obj i) \<Longrightarrow>
     \<exists>g. g \<in> set (db s) \<and> docId g = i \<and> userId g = uid u \<and> isFolder g"
  by (auto simp: targetRef_def resolveName_def normalizeRoot_def Let_def
      split: sum.splits option.splits if_splits dest: findOne_Some)

lemma castRef_Some_truthy: "castRef cast t = Some i \<Longrightarrow> t \<noteq> Str [] \<Longrightarrow> truthy t"
  by (cases t) auto

lemma checkTarget_passes:
  assumes "checkTarget cast s u f fileId (Str t) = Some None" and "t \<noteq> []"
  shows "\<exists>i. cast t = Some i
           \<and> findOne (\<lambda>g. docId g = i \<and> userId g = uid u \<and> isFolder g) (db s) \<noteq> None"
proof (cases "cast t")
  case None
  then show ?thesis using assms by (simp add: checkTarget_def)
next
  case (Some i)
  then show ?thesis using assms
    by (cases "findOne (\<lambda>g. docId g = i \<and> userId g = uid u \<and> isFolder g) (db s)")
       (simp_all add: checkTarget_def)
qed

lemma checkTarget_refuses:
  assumes "checkTarget cast s u f fileId t = Some (Some r)"
  shows "r \<noteq> Message 200 ''Moved successfully''"
  using assms
  by (auto simp: checkTarget_def moveFailed_def split: if_splits option.splits)

lemma exMove_walks:
  "checkIfSubfolder (db exMove) (Some idY) idX = Some True"
  "checkIfSubfolder (db exMove) (Some idX) idX = Some True"
  "checkIfSubfolder (db exMove) (Some idZ) idX = Some False"
  by (simp_all add: checkIfSubfolder.simps findById_def findOne_def move_examples)

lemma exMove_nodes:
  "findOne (\<lambda>f. docId f = idX \<and> userId f = uid ann) (db exMove) = Some mX"
  "findOne (\<lambda>f. docId f = idA \<and> userId f = uid ann) (db exMove) = Some mA"
  "isFolder mX" "name mX \<noteq> []" "\<not> isFolder mA" "distinct (map docId (db exMove))"
  by (simp_all add: findOne_def move_examples)

lemma exMove_targets:
  "targetRef exMove ann (byId (Some idY)) = Inr (Str idY)"
  "targetRef exMove ann (byId (Some idZ)) = Inr (Str idZ)"
  "targetRef exMove ann (byId (Some idX)) = Inr (Str idX)"
  "targetRef exMove ann (byId (Some idA)) = Inr (Str idA)"
  "targetRef exMove ann (byName ''X'') = Inr (Obj idX)"
  "findOne (\<lambda>g. docId g = idX \<and> userId g = uid ann \<and> isFolder g) (db exMove) \<noteq> None"
  "findOne (\<lambda>g. docId g = idY \<and> userId g = uid ann \<and> isFolder g) (db exMove) \<noteq> None"
  "findOne (\<lambda>g. docId g = idZ \<and> userId g = uid ann \<and> isFolder g) (db exMove) \<noteq> None"
  by (simp_all add: targetRef_def resolveName_def normalizeRoot_def byId_def byName_def
      findOne_def move_examples)

lemma exMove_upper: "targetRef exMove ann (byId (Some upperX)) = Inr (Str upperX)"
  by (simp add: targetRef_def resolveName_def normalizeRoot_def byId_def move_examples)

lemma findOne_save_hit:
  assumes "findById files (docId f') \<noteq> None" and "q f'" and "\<forall>g. q g \<longrightarrow> docId g = docId f'"
  shows "findOne q (save f' files) = Some f'"
  using assms(1)
proof (induction files)
  case Nil
  then show ?case by (simp add: findById_def findOne_def)
next
  case (Cons g gs)
  show ?case
  proof (cases "docId g = docId f'")
    case True
    then show ?thesis using assms(2) by (simp add: findOne_def save_def)
  next
    case False
    then have "\<not> q g" using assms(3) by blast
    moreover have "findById gs (docId f') \<noteq> None"
      using Cons.prems False by (simp add: findById_def findOne_def)
    ultimately show ?thesis using Cons.IH False by (simp add: findOne_def save_def)
  qed
qed

lemma save_save: "docId a = docId b \<Longrightarrow> save a (save b files) = save a files"
  unfolding save_def by (induction files) auto

lemma save_untouched: "\<forall>g \<in> set files. docId g \<noteq> docId f' \<Longrightarrow> save f' files = files"
  unfolding save_def by (induction files) auto

lemma split_by_id:
  assumes "distinct (map docId files)" and "f \<in> set files"
  shows "\<exists>xs ys. files = xs @ f # ys \<and> (\<forall>g \<in> set xs \<union> set ys. docId g \<noteq> docId f)"
proof -
  from assms(2) obtain xs ys where s: "files = xs @ f # ys" by (auto dest: split_list)
  with assms(1) have "\<forall>g \<in> set xs \<union> set ys. docId g \<noteq> docId f" by (force simp: image_iff)
  with s show ?thesis by blast
qed

lemma save_split:
  "\<forall>g \<in> set xs \<union> set ys. docId g \<noteq> docId f' \<Longrightarrow> docId f = docId f'
     \<Longrightarrow> save f' (xs @ f # ys) = xs @ f' # ys"
  using save_untouched[of xs f'] save_untouched[of ys f'] by (simp add: save_def)

lemma findOne_upsert:
  "statsUser st = u \<Longrightarrow> findOne (\<lambda>d. statsUser d = u) (upsert st docs) = Some st"
  unfolding findOne_def upsert_def
  by (induction docs) (auto split: if_splits)

lemma statsUser_recompute: "statsUser (recompute files u) = u"
  by (simp add: recompute_def Let_def)

lemma currentUsed_upsert:
  "stats s' = upsert (recompute files u) docs \<Longrightarrow> currentUsed s' u = usedStorage (recompute files u)"
  by (simp add: currentUsed_def findOne_upsert statsUser_recompute)

lemma trash_state:
  assumes "findOne (\<lambda>g. docId g = i \<and> userId g = uid u) (db s) = Some f"
  shows "db (snd (trash s u i t1 t2))
           = save (f\<lparr>inTrash := True, deletedAt := Some t1, permanentDeleteAt := Some (t2 + retentionMs)\<rparr>) (db s)"
    and "stats (snd (trash s u i t1 t2))
           = upsert (recompute (db (snd (trash s u i t1 t2))) (uid u)) (stats s)"
  using assms
  by (simp_all add: trash_def Let_def logActivity_def updateUserStats_def)

lemma restore_state:
  assumes "findOne (\<lambda>g. docId g = i \<and> userId g = uid u \<and> inTrash g) (db s) = Some f"
  shows "db (snd (restore s u i))
           = save (f\<lparr>inTrash := False, deletedAt := None, permanentDeleteAt := None\<rparr>) (db s)"
    and "stats (snd (restore s u i))
           = upsert (recompute (db (snd (restore s u i))) (uid u)) (stats s)"
  using assms
  by (simp_all add: restore_def Let_def logActivity_def updateUserStats_def)

lemma used_split:
  "usedStorage (recompute (xs @ g # ys) u)
     = usedStorage (recompute (xs @ ys) u)
       + (if userId g = u \<and> \<not> inTrash g \<and> \<not> isFolder g then fsize g else 0)"
  by (simp add: recompute_def Let_def)

section \<open>Facts about the upload routes\<close>

lemmas upload_examples = exFresh_def aTxt2_def bTxt_def exDup_def exBatch_def freshIds_def
  plainBatch_def exFull_def

lemmas upload_defs = upload_def normalizeParent_def parentOk_def overQuota_def existingSame_def
  rejectUpload_def uploadFailed_def unlinkSync_def existsSync_def readdir_def removeEntry_def
  updateUserStats_def upsert_def recompute_def saveNew_def logActivity_def validActivity_def
  activityTypes_def existingInfo_def fullInfo_def getFileTypeFromMime_def startsWith_def
  findOne_def orRoot.simps digit_def

lemmas multi_defs = uploadMultiple_def folderUpload_def fileParent_def ofParent_def
  multiFailed_def unlinkAll_def uploadSize_def currentUsed_def QuotaExceededError_def
  InvalidParentError_def

lemma exDup_eval:
  "exDup = \<lparr>db = [fileA],
            stats = [\<lparr>statsUser = ''u1'', usedStorage = 5, totalFiles = 1, totalFolders = 0\<rparr>],
            activities = [\<lparr>atype = ''upload'', actFileId = Some ''a'', fileName = ''a.txt'',
                           actUserId = Some ''u1'',
                           details = [(''size'', ''5''), (''type'', ''text''), (''parentFolder'', ''root'')]\<rparr>],
            disk = [(''u1'', Directory [(''a-1.txt'', RegularFile 5), (''a-2.txt'', RegularFile 5)])]\<rparr>"
  by (simp add: upload_examples upload_defs example_defs Let_def)

lemma exBatch_eval:
  "exBatch = \<lparr>db = [fileA],
            stats = [\<lparr>statsUser = ''u1'', usedStorage = 5, totalFiles = 1, totalFolders = 0\<rparr>],
            activities = [\<lparr>atype = ''upload'', actFileId = Some ''a'', fileName = ''a.txt'',
                           actUserId = Some ''u1'',
                           details = [(''size'', ''5''), (''type'', ''text''), (''parentFolder'', ''root'')]\<rparr>],
            disk = [(''u1'', Directory [(''a-1.txt'', RegularFile 5), (''b-1.txt'', RegularFile 7),
                                         (''a-2.txt'', RegularFile 5)])]\<rparr>"
  by (simp add: upload_examples upload_defs example_defs Let_def)

lemma map_of_removeEntry:
  "map_of (removeEntry p d) a
     = map_option (\<lambda>node. if a = fst p
                            then (case node of
                                    Directory es \<Rightarrow> Directory (filter (\<lambda>(e, st). e \<noteq> snd p) es)
                                  | NotADirectory \<Rightarrow> NotADirectory)
                            else node) (map_of d a)"
  unfolding removeEntry_def by (induction d) (auto split: dnode.splits)

lemma not_exists_removeEntry: "\<not> existsSync (removeEntry p d) p"
  by (auto simp: existsSync_def readdir_def map_of_removeEntry split: option.splits dnode.splits)

lemma exists_removeEntry: "existsSync (removeEntry q d) p \<Longrightarrow> existsSync d p"
  by (auto simp: existsSync_def readdir_def map_of_removeEntry split: option.splits dnode.splits if_splits)

lemma not_exists_fold:
  "\<not> existsSync d p \<Longrightarrow> \<not> existsSync (fold (\<lambda>file. removeEntry (upPath file)) files d) p"
  by (induction files arbitrary: d) (auto dest: exists_removeEntry)

lemma not_exists_unlinkAll:
  "file \<in> set files \<Longrightarrow> \<not> existsSync (unlinkAll files d) (upPath file)"
  unfolding unlinkAll_def
proof (induction files arbitrary: d)
  case Nil
  then show ?case by simp
next
  case (Cons x xs)
  show ?case
  proof (cases "upPath x = upPath file")
    case True
    then show ?thesis using not_exists_fold[OF not_exists_removeEntry, of xs "upPath file" d] by simp
  next
    case False
    then have "file \<in> set xs" using Cons.prems by auto
    then show ?thesis using Cons.IH by simp
  qed
qed

lemma quota_above_limit: "fileSizeLimit < quotaBytes"
  by (simp add: fileSizeLimit_def quotaBytes_def)

lemma overQuota_iff:
  "multerAccepts file \<Longrightarrow>
     overQuota s u (upSize file) \<longleftrightarrow> currentUsed s (uid u) + upSize file > quotaBytes"
  using quota_above_limit
  by (auto simp: overQuota_def currentUsed_def multerAccepts_def quotaBytes_def split: option.splits)

lemma upload_twice:
  assumes first: "existingSame s u file (normalizeParent bodyParent) = None"
    and ok: "parentOk s u (normalizeParent bodyParent)" "\<not> overQuota s u (upSize file)"
      "originalname file \<noteq> []"
    and s1: "s1 = snd (upload s u (Some file) bodyParent newId now)"
    and same: "originalname file' = originalname file" "upSize file' = upSize file"
    and quota: "\<not> overQuota (s1\<lparr>disk := d\<rparr>) u (upSize file')"
  shows "db s1 = db s @ [newFile newId u file (normalizeParent bodyParent) now]"
    and "upload (s1\<lparr>disk := d\<rparr>) u (Some file') bodyParent newId' now'
           = (FileReply 200 ''File already exists, skipped duplicate''
                (existingInfo (newFile newId u file (normalizeParent bodyParent) now)),
              updateUserStats (uid u) (s1\<lparr>disk := d\<rparr>))"
    and "db (snd (upload (s1\<lparr>disk := d\<rparr>) u (Some file') bodyParent newId' now')) = db s1"
proof -
  define nf where "nf = newFile newId u file (normalizeParent bodyParent) now"
  have va: "validActivity \<lparr>atype = ''upload'', actFileId = x, fileName = originalname file,
              actUserId = Some (uid u), details = dd\<rparr>" for x dd
    using ok(3) by (simp add: validActivity_def activityTypes_def)
  show db1: "db s1 = db s @ [newFile newId u file (normalizeParent bodyParent) now]"
    using first ok va unfolding s1
    by (simp add: upload_def Let_def logActivity_def updateUserStats_def saveNew_def)
  have none: "\<forall>g \<in> set (db s). \<not> (userId g = uid u \<and> originalName g = Some (originalname file)
                 \<and> fsize g = upSize file \<and> parentFolder g = normalizeParent bodyParent \<and> \<not> inTrash g)"
    using first by (simp add: existingSame_def findOne_None)
  have find_app: "find q (xs @ [y]) = Some y" if "\<forall>g \<in> set xs. \<not> q g" "q y" for q xs and y :: fileDoc
    using that by (induction xs) auto
  have ex: "existingSame (s1\<lparr>disk := d\<rparr>) u file' (normalizeParent bodyParent) = Some nf"
    unfolding existingSame_def findOne_def using none same
    by (simp add: db1 nf_def[symmetric]) (rule find_app, simp_all add: nf_def newFile_def)
  have pk: "parentOk (s1\<lparr>disk := d\<rparr>) u (normalizeParent bodyParent)"
    using ok(1) by (auto simp: parentOk_def db1 findOne_None split: option.splits)
  show "upload (s1\<lparr>disk := d\<rparr>) u (Some file') bodyParent newId' now'
           = (FileReply 200 ''File already exists, skipped duplicate''
                (existingInfo (newFile newId u file (normalizeParent bodyParent) now)),
              updateUserStats (uid u) (s1\<lparr>disk := d\<rparr>))"
    using ex pk quota by (simp add: upload_def nf_def)
  then show "db (snd (upload (s1\<lparr>disk := d\<rparr>) u (Some file') bodyParent newId' now')) = db s1"
    by (simp add: updateUserStats_def)
qed

section \<open>Facts about the fallback search\<close>

lemmas search_examples = reportUp_def reportDoc_def exStale_def exGone_def idR_def

lemmas search_defs = locate_def locateSpec_def resolved_def dirChoice_def firstIn_def ownArea_def
  readdir_def nameMatches_def baseName_def stem_def extname_def lastSegment_def asciiLower_def
  lowerOf_def startsWith_def

lemma scan_sized:
  "fsize f \<noteq> 0 \<Longrightarrow>
     scanEntries lower f area es found
       = (case firstIn (isBoth lower f) area es of
            Some p \<Rightarrow> Some p
          | None \<Rightarrow> (case found of Some p \<Rightarrow> Some p | None \<Rightarrow> firstIn (isNamed lower f) area es))"
proof (induction es arbitrary: found)
  case Nil
  then show ?case by (simp add: firstIn_def split: option.splits)
next
  case (Cons c cs)
  obtain e st where c: "c = (e, st)" by (cases c)
  show ?case
  proof (cases st)
    case (RegularFile sz)
    then show ?thesis using Cons c
      by (cases found) (auto simp: firstIn_def split: option.splits)
  next
    case NotAFile
    then show ?thesis using Cons c by (auto simp: firstIn_def split: option.splits)
  next
    case Unreadable
    then show ?thesis using Cons c by (auto simp: firstIn_def split: option.splits)
  qed
qed

lemma scan_unsized:
  "fsize f = 0 \<Longrightarrow>
     scanEntries lower f area es found
       = (case firstIn (isNamed lower f) area es of Some p \<Rightarrow> Some p | None \<Rightarrow> found)"
proof (induction es arbitrary: found)
  case Nil
  then show ?case by (simp add: firstIn_def)
next
  case (Cons c cs)
  obtain e st where c: "c = (e, st)" by (cases c)
  show ?case
  proof (cases st)
    case (RegularFile sz)
    then show ?thesis using Cons c
      by (cases found) (auto simp: firstIn_def split: option.splits)
  next
    case NotAFile
    then show ?thesis using Cons c by (auto simp: firstIn_def split: option.splits)
  next
    case Unreadable
    then show ?thesis using Cons c by (auto simp: firstIn_def split: option.splits)
  qed
qed

lemma scan_dirChoice: "scanEntries lower f area es None = dirChoice lower f area es"
  by (cases "fsize f = 0") (simp_all add: scan_sized scan_unsized dirChoice_def split: option.splits)

lemma searchAll_firstChoice: "searchAll lower f d = firstChoice lower f d"
proof (induction d)
  case Nil
  show ?case by simp
next
  case (Cons a d)
  obtain area node where a: "a = (area, node)" by (cases a)
  show ?case using Cons a by (cases node) (simp_all add: scan_dirChoice split: option.splits)
qed

lemma locate_resolved: "locate lower d f = resolved lower d f"
  by (simp add: locate_def resolved_def ownArea_def scan_dirChoice searchAll_firstChoice
      dirChoice_def firstIn_def split: option.splits)

lemma findById_updateOnePath:
  "findById files i = Some g \<Longrightarrow> findById (updateOnePath i p files) i = Some (g\<lparr>path := Some p\<rparr>)"
  unfolding findById_def findOne_def by (induction files) (auto split: if_splits)

lemma ex_report:
  "findOne (\<lambda>f. docId f = idR \<and> (userId f = uid ann \<or> uid ann \<in> fst ` set (sharedWith f)))
     (db exStale) = Some reportDoc"
  "findOne (\<lambda>f. docId f = idR \<and> (userId f = uid ann \<or> uid ann \<in> fst ` set (sharedWith f)))
     (db exGone) = Some reportDoc"
  "\<not> isFolder reportDoc" "name reportDoc \<noteq> []" "attachmentName reportDoc = ''report.pdf''"
  "stalePath exStale reportDoc" "stalePath exGone reportDoc"
  by (simp_all add: findOne_def stalePath_def existsSync_def readdir_def attachmentName_def
      search_examples example_defs)

lemma ex_resolved:
  "resolved asciiLower (disk exStale) reportDoc = Some (''u1'', ''Report-old.pdf'')"
  "resolved asciiLower (disk exGone) reportDoc = None"
  by (simp_all add: search_defs search_examples example_defs)
section \<open>Claims\<close>

subsection \<open>C1: a folder cannot be moved into itself or below itself\<close>

text \<open>
  C1, as amended. Let \<open>A\<close> be a folder of the account, addressed by its id in canonical
  form, and let the target of the request be the root or a folder \<open>B\<close> of the same
  account, given by name or by id (\<open>t\<close> is the value of \<^verbatim>\<open>targetFolderId\<close> after the
  lookup by name, \<open>castRef cast t\<close> the id of \<open>B\<close>). If \<open>B\<close> is \<open>A\<close> or lies below \<open>A\<close>
  the move fails and nothing is changed: with the self-move error when the target id is
  the very string that addresses \<open>A\<close>, with the cycle error otherwise (a descendant, or
  \<open>A\<close> given by name or by another spelling of its id). If the target is neither, the
  chain of parent links from it ends and \<open>A\<close> has a name, the move succeeds, \<open>A\<close> has the
  target as its parent afterwards, and \<^verbatim>\<open>checkIfSubfolder(B, A)\<close> is still false.
\<close>

theorem move_cycle_guard:
  assumes canon: "cast a = Some a"
    and A: "findOne (\<lambda>f. docId f = a \<and> userId f = uid u) (db s) = Some A"
    and folder: "isFolder A"
    and T: "targetRef s u b = Inr t"
    and ok: "t = Null \<or> (\<exists>i. castRef cast t = Some i \<and>
               findOne (\<lambda>g. docId g = i \<and> userId g = uid u \<and> isFolder g) (db s) \<noteq> None)"
  shows "((\<exists>i. castRef cast t = Some i \<and> atOrBelow (db s) i a) \<longrightarrow>
            move cast s u a b now = Some (if t = Str a then SelfMoveError else CycleError, s))
       \<and> (\<not> (\<exists>i. castRef cast t = Some i \<and> atOrBelow (db s) i a)
            \<and> reachesRoot (db s) (castRef cast t) \<and> name A \<noteq> [] \<longrightarrow>
            (\<exists>s'. move cast s u a b now = Some (Message 200 ''Moved successfully'', s')
                \<and> map_option parentFolder (findById (db s') a) = Some (castRef cast t)
                \<and> checkIfSubfolder (db s') (castRef cast t) a = Some False))"
proof (intro conjI impI)
  have nz: "t \<noteq> Str []" using targetRef_normal[OF T] by simp
  have tr: "truthy t \<longleftrightarrow> castRef cast t \<noteq> None"
    using ok nz by (cases t) auto
  {
    assume "\<exists>i. castRef cast t = Some i \<and> atOrBelow (db s) i a"
    then obtain i where c: "castRef cast t = Some i" and below: "atOrBelow (db s) i a" by blast
    from ok c obtain B where
      B: "findOne (\<lambda>g. docId g = i \<and> userId g = uid u \<and> isFolder g) (db s) = Some B" by auto
    have chk: "checkIfSubfolder (db s) (Some i) a = Some True" using below by (rule atOrBelow_check)
    have se: "strictEq a t \<longleftrightarrow> t = Str a" by (cases t) auto
    show "move cast s u a b now = Some (if t = Str a then SelfMoveError else CycleError, s)"
      using canon A folder T tr c B chk se
      by (simp add: move_def checkTarget_def SelfMoveError_def CycleError_def)
  }
  {
    assume h: "\<not> (\<exists>i. castRef cast t = Some i \<and> atOrBelow (db s) i a)
            \<and> reachesRoot (db s) (castRef cast t) \<and> name A \<noteq> []"
    have idA: "docId A = a" using A by (auto dest: findOne_Some)
    have exA: "findById (db s) a \<noteq> None"
      unfolding findById_def using A by (rule findOne_weaken) simp
    have ne: "castRef cast t \<noteq> Some a" using h exA by (auto intro: atOrBelow.self)
    have chk: "checkIfSubfolder (db s) (castRef cast t) a = Some False"
      using h by (intro reachesRoot_check) auto
    define A' where "A' = A\<lparr>parentFolder := castRef cast t, updatedAt := now\<rparr>"
    have idA': "docId A' = a" by (simp add: A'_def idA)
    have nse: "\<not> strictEq a t" using ne canon by (cases t) auto
    have ct: "checkTarget cast s u A a t = Some None"
    proof (cases "castRef cast t")
      case None
      then show ?thesis using tr by (simp add: checkTarget_def)
    next
      case (Some i)
      then show ?thesis using ok folder nse chk tr by (auto simp: checkTarget_def)
    qed
    have va: "validActivity \<lparr>atype = ''move'', actFileId = Some a, fileName = name A,
                actUserId = Some (uid u), details = d\<rparr>" for d
      using h by (simp add: validActivity_def activityTypes_def)
    have pf: "(if truthy t then castRef cast t else None) = castRef cast t"
      using tr by auto
    have mv: "move cast s u a b now = Some (Message 200 ''Moved successfully'',
        s\<lparr>db := save A' (db s),
          activities := activities s @ [\<lparr>atype = ''move'', actFileId = Some a, fileName = name A,
                actUserId = Some (uid u),
                details = [(''oldLocation'', orRoot (parentFolder A)),
                           (''newLocation'', orRoot (if truthy t then refId t else None))]\<rparr>]\<rparr>)"
      using canon A T ct va
      by (simp add: move_def commitMove_def logActivity_def Let_def A'_def idA pf)
    have p: "map_option parentFolder (findById (save A' (db s)) a) = Some (castRef cast t)"
      using findById_save_same[of "db s" A'] exA idA' by (simp add: A'_def)
    have c: "checkIfSubfolder (save A' (db s)) (castRef cast t) a = Some False"
      using check_after_save[of "db s" "castRef cast t" A'] h idA' by auto
    show "\<exists>s'. move cast s u a b now = Some (Message 200 ''Moved successfully'', s')
                  \<and> map_option parentFolder (findById (db s') a) = Some (castRef cast t)
                  \<and> checkIfSubfolder (db s') (castRef cast t) a = Some False"
      using mv p c by simp
  }
qed

theorem move_cycle_guard_witness:
  "hexCast idX = Some idX
   \<and> atOrBelow (db exMove) idY idX
   \<and> move hexCast exMove ann idX (byId (Some idY)) 70 = Some (CycleError, exMove)
   \<and> atOrBelow (db exMove) idX idX
   \<and> move hexCast exMove ann idX (byName ''X'') 70 = Some (CycleError, exMove)
   \<and> move hexCast exMove ann idX (byId (Some upperX)) 70 = Some (CycleError, exMove)
   \<and> \<not> atOrBelow (db exMove) idZ idX \<and> reachesRoot (db exMove) (Some idZ)
   \<and> (\<exists>s'. move hexCast exMove ann idX (byId (Some idZ)) 70
               = Some (Message 200 ''Moved successfully'', s')
         \<and> map_option parentFolder (findById (db s') idX) = Some (Some idZ)
         \<and> checkIfSubfolder (db s') (Some idZ) idX = Some False)"
proof -
  have r: "reachesRoot (db exMove) (Some idZ)"
    using check_reachesRoot[OF exMove_walks(3)] by simp
  have cy: "atOrBelow (db exMove) idY idX"
    using check_atOrBelow[OF exMove_walks(1)] by simp
  have cx: "atOrBelow (db exMove) idX idX"
    using check_atOrBelow[OF exMove_walks(2)] by simp
  have nb: "\<not> atOrBelow (db exMove) idZ idX"
    using atOrBelow_check[of "db exMove" idZ idX] exMove_walks(3) by auto
  have ne: "idY \<noteq> idX" "Obj idX \<noteq> Str idX" "upperX \<noteq> idX"
    by (simp_all add: idX_def idY_def upperX_def)
  have oky: "Str idY = Null \<or> (\<exists>i. castRef hexCast (Str idY) = Some i \<and>
       findOne (\<lambda>g. docId g = i \<and> userId g = uid ann \<and> isFolder g) (db exMove) \<noteq> None)"
    using exMove_targets(7) hexCast_ids(2) by simp
  have okx: "Obj idX = Null \<or> (\<exists>i. castRef hexCast (Obj idX) = Some i \<and>
       findOne (\<lambda>g. docId g = i \<and> userId g = uid ann \<and> isFolder g) (db exMove) \<noteq> None)"
    using exMove_targets(6) by simp
  have oku: "Str upperX = Null \<or> (\<exists>i. castRef hexCast (Str upperX) = Some i \<and>
       findOne (\<lambda>g. docId g = i \<and> userId g = uid ann \<and> isFolder g) (db exMove) \<noteq> None)"
    using exMove_targets(6) hexCast_ids(7) by simp
  have okz: "Str idZ = Null \<or> (\<exists>i. castRef hexCast (Str idZ) = Some i \<and>
       findOne (\<lambda>g. docId g = i \<and> userId g = uid ann \<and> isFolder g) (db exMove) \<noteq> None)"
    using exMove_targets(8) hexCast_ids(3) by simp
  show ?thesis
    using r cy cx nb ne hexCast_ids(1,2,3,7) exMove_nodes(4)
      move_cycle_guard[OF hexCast_ids(1) exMove_nodes(1) exMove_nodes(3) exMove_targets(1) oky, of 70]
      move_cycle_guard[OF hexCast_ids(1) exMove_nodes(1) exMove_nodes(3) exMove_targets(5) okx, of 70]
      move_cycle_guard[OF hexCast_ids(1) exMove_nodes(1) exMove_nodes(3) exMove_upper oku, of 70]
      move_cycle_guard[OF hexCast_ids(1) exMove_nodes(1) exMove_nodes(3) exMove_targets(2) okz, of 70]
    by simp
qed

text \<open>
  The claim asks for the cycle error when the target is the folder itself. Given by id,
  the folder is refused by the guard that precedes the walk, with another error.
\<close>

theorem move_self_not_cycle_error:
  "move hexCast exMove ann idX (byId (Some idX)) 70 = Some (SelfMoveError, exMove)
   \<and> SelfMoveError \<noteq> CycleError"
  by (simp add: move_defs move_examples)

text \<open>
  When the moved folder itself is addressed outside the canonical form, both guards
  compare a string that the lookup has cast. The id of the folder \<open>X\<close> written with an
  upper-case digit finds \<open>X\<close>, is different from the target id and from every id that
  the walk prints, and the route makes \<open>X\<close> its own parent.
\<close>

lemma move_upper_case_id:
  "case move hexCast exMove ann upperX (byId (Some idX)) 70 of
     None \<Rightarrow> False
   | Some (r, s') \<Rightarrow>
       r = Message 200 ''Moved successfully''
       \<and> map_option parentFolder (findById (db s') idX) = Some (Some idX)"
  by (simp add: move_defs move_examples checkIfSubfolder.simps)

subsection \<open>C2: the same upload twice\<close>

text \<open>
  C2. The claim asks that the second of two equal uploads succeeds and reports the first
  node. In \<^verbatim>\<open>upload-multiple\<close> the branch for a duplicate logs an activity of type
  \<^verbatim>\<open>upload_skipped_duplicate\<close>, which the activity schema does not list: the
  validation error is rethrown, the \<^verbatim>\<open>catch\<close> block unlinks every file of the batch
  and the reply is 500. In a batch of a new file and a duplicate, the node of the new
  file stays in the collection while its bytes are removed.
\<close>

theorem uploadMultiple_duplicate_fails:
  "uploadMultiple exDup ann [aTxt2] plainBatch freshIds 80
     = (Failure 500 ''Server error while uploading files'',
        exDup\<lparr>disk := [(''u1'', Directory [(''a-1.txt'', RegularFile 5)])]\<rparr>)
   \<and> fst (uploadMultiple exBatch ann [bTxt, aTxt2] plainBatch freshIds 80)
       = Failure 500 ''Server error while uploading files''
   \<and> map docId (db (snd (uploadMultiple exBatch ann [bTxt, aTxt2] plainBatch freshIds 80)))
       = [''a'', ''n0'']
   \<and> map path (db (snd (uploadMultiple exBatch ann [bTxt, aTxt2] plainBatch freshIds 80)))
       = [Some (''u1'', ''a-1.txt''), Some (''u1'', ''b-1.txt'')]
   \<and> \<not> existsSync (disk (snd (uploadMultiple exBatch ann [bTxt, aTxt2] plainBatch freshIds 80)))
         (''u1'', ''b-1.txt'')"
  unfolding exDup_eval exBatch_eval
  by (simp add: multi_defs upload_defs upload_examples example_defs Let_def newFile_def)

text \<open>
  In general: a batch without folder paths whose first file is a duplicate is answered
  with 500, and all its files are unlinked.
\<close>

lemma uploadMultiple_duplicate_throws:
  assumes "parentOk s u (normalizeParent (parentFolderField b))"
    and "\<not> currentUsed s (uid u) + uploadSize (upl # rest) > quotaBytes"
    and "folderUpload b = None"
    and "existingSame s u upl (normalizeParent (parentFolderField b)) = Some existing"
  shows "uploadMultiple s u (upl # rest) b ids now
           = (Failure 500 ''Server error while uploading files'',
              s\<lparr>disk := unlinkAll (upl # rest) (disk s)\<rparr>)"
proof -
  have p: "parentId (ofParent x) = x" "ofParent x \<noteq> Inherited" for x
    by (cases x; simp add: ofParent_def)+
  have "saveFiles u ids now (normalizeParent (parentFolderField b)) None [] (upl # rest) 0 (s, [], 0, 0)
          = Inl s"
    using assms(4) p[of "normalizeParent (parentFolderField b)"]
    by (cases "ofParent (normalizeParent (parentFolderField b))")
       (simp_all add: fileParent_def logActivity_def validActivity_def activityTypes_def)
  then show ?thesis
    using assms(1-3)
    by (simp add: uploadMultiple_def quotaBytes_def multiFailed_def del: saveFiles.simps)
qed

text \<open>
  The single route does what the claim says once the second request has passed the
  quota check: \<open>upload_twice\<close> above.
\<close>

subsection \<open>C3: an upload over the quota\<close>

text \<open>
  C3. A request that reaches the quota check (the file, at most 100 MB, is persisted
  and the parent folder is valid) with \<^verbatim>\<open>currentUsed\<close> plus the incoming size above
  16106127360 bytes is answered with the quota error by both upload routes; no node is
  created, and the persisted files are removed from the upload directory. For an
  account without a quota record \<^verbatim>\<open>currentUsed\<close> is 0.
\<close>

theorem quota_exceeded_rejects:
  "(multerAccepts upl \<and> existsSync (disk s) (upPath upl) \<and> parentOk s u (normalizeParent bodyParent)
      \<and> currentUsed s (uid u) + upSize upl > quotaBytes \<longrightarrow>
        upload s u (Some upl) bodyParent newId now
          = (QuotaExceededError, s\<lparr>disk := removeEntry (upPath upl) (disk s)\<rparr>)
        \<and> db (snd (upload s u (Some upl) bodyParent newId now)) = db s
        \<and> \<not> existsSync (disk (snd (upload s u (Some upl) bodyParent newId now))) (upPath upl))
   \<and> (files \<noteq> [] \<and> parentOk s u (normalizeParent (parentFolderField b))
      \<and> currentUsed s (uid u) + uploadSize files > quotaBytes \<longrightarrow>
        uploadMultiple s u files b ids now
          = (QuotaExceededError, s\<lparr>disk := unlinkAll files (disk s)\<rparr>)
        \<and> db (snd (uploadMultiple s u files b ids now)) = db s
        \<and> (\<forall>upl \<in> set files.
              \<not> existsSync (disk (snd (uploadMultiple s u files b ids now))) (upPath upl)))"
proof (intro conjI impI)
  assume h: "multerAccepts upl \<and> existsSync (disk s) (upPath upl)
      \<and> parentOk s u (normalizeParent bodyParent)
      \<and> currentUsed s (uid u) + upSize upl > quotaBytes"
  then have "overQuota s u (upSize upl)" by (simp add: overQuota_iff)
  with h show eq: "upload s u (Some upl) bodyParent newId now
          = (QuotaExceededError, s\<lparr>disk := removeEntry (upPath upl) (disk s)\<rparr>)"
    by (simp add: upload_def rejectUpload_def unlinkSync_def)
  show "db (snd (upload s u (Some upl) bodyParent newId now)) = db s"
    by (simp add: eq)
  show "\<not> existsSync (disk (snd (upload s u (Some upl) bodyParent newId now))) (upPath upl)"
    by (simp add: eq not_exists_removeEntry)
next
  assume h: "files \<noteq> [] \<and> parentOk s u (normalizeParent (parentFolderField b))
      \<and> currentUsed s (uid u) + uploadSize files > quotaBytes"
  then show eq: "uploadMultiple s u files b ids now
          = (QuotaExceededError, s\<lparr>disk := unlinkAll files (disk s)\<rparr>)"
    by (simp add: uploadMultiple_def quotaBytes_def)
  show "db (snd (uploadMultiple s u files b ids now)) = db s"
    by (simp add: eq)
  show "\<forall>upl \<in> set files.
          \<not> existsSync (disk (snd (uploadMultiple s u files b ids now))) (upPath upl)"
    by (simp add: eq not_exists_unlinkAll)
qed

theorem quota_exceeded_rejects_witness:
  "multerAccepts bTxt \<and> existsSync (disk exFull) (upPath bTxt) \<and> parentOk exFull ann None
   \<and> currentUsed exFull ''u1'' + upSize bTxt > quotaBytes
   \<and> upload exFull ann (Some bTxt) None ''b'' 90
       = (QuotaExceededError, exFull\<lparr>disk := [(''u1'', Directory [(''a-1.txt'', RegularFile 5)])]\<rparr>)
   \<and> uploadMultiple exFull ann [bTxt] plainBatch freshIds 90
       = (QuotaExceededError, exFull\<lparr>disk := [(''u1'', Directory [(''a-1.txt'', RegularFile 5)])]\<rparr>)
   \<and> db (snd (upload exFull ann (Some bTxt) None ''b'' 90)) = db exFull
   \<and> \<not> existsSync (disk (snd (upload exFull ann (Some bTxt) None ''b'' 90))) (upPath bTxt)
   \<and> \<not> existsSync (disk (snd (uploadMultiple exFull ann [bTxt] plainBatch freshIds 90))) (upPath bTxt)"
proof -
  have h: "multerAccepts bTxt" "existsSync (disk exFull) (upPath bTxt)"
    "parentOk exFull ann (normalizeParent None)"
    "currentUsed exFull (uid ann) + upSize bTxt > quotaBytes"
    "[bTxt] \<noteq> []" "parentOk exFull ann (normalizeParent (parentFolderField plainBatch))"
    "currentUsed exFull (uid ann) + uploadSize [bTxt] > quotaBytes"
    by (simp_all add: multerAccepts_def fileSizeLimit_def quotaBytes_def currentUsed_def
        uploadSize_def upload_defs upload_examples example_defs)
  have r: "removeEntry (upPath bTxt) (disk exFull) = [(''u1'', Directory [(''a-1.txt'', RegularFile 5)])]"
    "unlinkAll [bTxt] (disk exFull) = [(''u1'', Directory [(''a-1.txt'', RegularFile 5)])]"
    "uid ann = ''u1''" "normalizeParent None = None"
    by (simp_all add: unlinkAll_def upload_defs upload_examples example_defs)
  show ?thesis
    using h quota_exceeded_rejects[where upl = bTxt and s = exFull and u = ann and bodyParent = None
        and files = "[bTxt]" and b = plainBatch and newId = "''b''" and now = 90 and ids = freshIds]
    unfolding r by (auto simp: existsSync_def readdir_def bTxt_def)
qed

text \<open>
  The single route skips the check for an account without a record. No accepted request
  can be over the quota then: one file is at most 100 MB, a batch at most 50 such files.
\<close>

lemma no_record_never_over_quota:
  "findOne (\<lambda>d. statsUser d = uid u) (stats s) = None \<Longrightarrow>
     (multerAccepts file \<longrightarrow> \<not> currentUsed s (uid u) + upSize file > quotaBytes)
     \<and> (length files \<le> 50 \<and> (\<forall>x \<in> set files. multerAccepts x) \<longrightarrow>
           \<not> currentUsed s (uid u) + uploadSize files > quotaBytes)"
proof -
  have fold_sum: "fold (\<lambda>file sum. sum + upSize file) xs n = n + sum_list (map upSize xs)" for xs n
    by (induction xs arbitrary: n) auto
  have bound: "sum_list (map upSize xs) \<le> length xs * fileSizeLimit"
    if "\<forall>x \<in> set xs. multerAccepts x" for xs
    using that by (induction xs) (auto simp: multerAccepts_def)
  assume n: "findOne (\<lambda>d. statsUser d = uid u) (stats s) = None"
  show ?thesis
  proof (intro conjI impI)
    assume "multerAccepts file"
    then show "\<not> currentUsed s (uid u) + upSize file > quotaBytes"
      using n by (simp add: currentUsed_def multerAccepts_def fileSizeLimit_def quotaBytes_def)
  next
    assume h: "length files \<le> 50 \<and> (\<forall>x \<in> set files. multerAccepts x)"
    then have "sum_list (map upSize files) \<le> length files * fileSizeLimit" using bound by blast
    also have "\<dots> \<le> 50 * fileSizeLimit" using h by simp
    finally show "\<not> currentUsed s (uid u) + uploadSize files > quotaBytes"
      using n by (simp add: currentUsed_def uploadSize_def fold_sum fileSizeLimit_def quotaBytes_def)
  qed
qed

subsection \<open>C4: trash and restore\<close>

text \<open>
  C4. The claim asks that trash sets \<open>permanentDeleteAt\<close> to \<open>deletedAt\<close> plus 30 days.
  The route takes \<open>deletedAt\<close> from \<^verbatim>\<open>new Date()\<close> and \<open>permanentDeleteAt\<close> from a
  second reading of the clock, \<^verbatim>\<open>Date.now()\<close>: when the clock ticks between the two
  (here from 1000 to 1001, for the file a.txt) the dates are 30 days and one millisecond
  apart.
\<close>

theorem trash_reads_clock_twice:
  "map_option deletedAt (findById (db (snd (trash exMove ann idA 1000 1001))) idA)
     = Some (Some 1000)
   \<and> map_option permanentDeleteAt (findById (db (snd (trash exMove ann idA 1000 1001))) idA)
       = Some (Some 2592001001)
   \<and> (2592001001 :: nat) \<noteq> 1000 + 30 * 24 * 60 * 60 * 1000"
proof -
  have a: "findOne (\<lambda>f. docId f = idA \<and> userId f = uid ann) (db exMove) = Some mA"
    by (simp add: findOne_def move_examples)
  show ?thesis
    using trash_state(1)[OF a, of 1000 1001]
    by (simp add: save_def findById_def findOne_def retentionMs_def move_examples)
qed

text \<open>
  The rest of the claim holds of the routes. For a node of the requester, trash sets
  \<open>inTrash\<close>, \<open>deletedAt\<close> to the first reading of the clock and \<open>permanentDeleteAt\<close> to
  the second reading plus 30 days, so the two dates are 30 days apart whenever both
  readings return the same millisecond. Restore afterwards clears the three fields, and
  with unique ids the used storage of the account after the restore is that after the
  trash plus the size of the file.
\<close>

lemma trash_then_restore:
  assumes f: "findOne (\<lambda>g. docId g = i \<and> userId g = uid u) (db s) = Some f"
    and s1: "s1 = snd (trash s u i t1 t2)"
    and s2: "s2 = snd (restore s1 u i)"
  shows "findById (db s1) i
           = Some (f\<lparr>inTrash := True, deletedAt := Some t1, permanentDeleteAt := Some (t2 + retentionMs)\<rparr>)
       \<and> retentionMs = 30 * 24 * 60 * 60 * 1000
       \<and> findById (db s2) i = Some (f\<lparr>inTrash := False, deletedAt := None, permanentDeleteAt := None\<rparr>)
       \<and> (distinct (map docId (db s)) \<and> \<not> isFolder f \<longrightarrow>
            currentUsed s2 (uid u) = currentUsed s1 (uid u) + fsize f)"
proof -
  define f1 where "f1 = f\<lparr>inTrash := True, deletedAt := Some t1, permanentDeleteAt := Some (t2 + retentionMs)\<rparr>"
  define f2 where "f2 = f\<lparr>inTrash := False, deletedAt := None, permanentDeleteAt := None\<rparr>"
  have fin: "f \<in> set (db s)" "docId f = i" "userId f = uid u" using f by (auto dest: findOne_Some)
  have ex: "findById (db s) (docId f1) \<noteq> None"
    unfolding findById_def using f by (rule findOne_weaken) (simp add: f1_def fin)
  have db1: "db s1 = save f1 (db s)" using trash_state(1)[OF f] s1 by (simp add: f1_def)
  have a: "findById (db s1) i = Some f1"
    using findById_save_same[OF ex] db1 by (simp add: f1_def fin)
  have hit: "findOne (\<lambda>g. docId g = i \<and> userId g = uid u \<and> inTrash g) (db s1) = Some f1"
    unfolding db1 by (rule findOne_save_hit[OF ex]) (simp_all add: f1_def fin)
  have f12: "f1\<lparr>inTrash := False, deletedAt := None, permanentDeleteAt := None\<rparr> = f2"
    by (simp add: f1_def f2_def)
  have db2: "db s2 = save f2 (db s)"
    using restore_state(1)[OF hit] s2 db1 f12 by (simp add: save_save f1_def f2_def)
  have ex2: "findById (db s) (docId f2) \<noteq> None" using ex by (simp add: f1_def f2_def)
  have b: "findById (db s2) i = Some f2"
    using findById_save_same[OF ex2] db2 by (simp add: f2_def fin)
  have u1: "currentUsed s1 (uid u) = usedStorage (recompute (db s1) (uid u))"
    using trash_state(2)[OF f] s1 by (simp add: currentUsed_upsert)
  have u2: "currentUsed s2 (uid u) = usedStorage (recompute (db s2) (uid u))"
    using restore_state(2)[OF hit] s2 by (simp add: currentUsed_upsert)
  have c: "currentUsed s2 (uid u) = currentUsed s1 (uid u) + fsize f"
    if d: "distinct (map docId (db s))" and nf: "\<not> isFolder f"
  proof -
    from split_by_id[OF d fin(1)] obtain xs ys where
      sp: "db s = xs @ f # ys" and o: "\<forall>g \<in> set xs \<union> set ys. docId g \<noteq> docId f" by blast
    have "db s1 = xs @ f1 # ys" unfolding db1 sp
      by (rule save_split) (use o in \<open>simp_all add: f1_def\<close>)
    moreover have "db s2 = xs @ f2 # ys" unfolding db2 sp
      by (rule save_split) (use o in \<open>simp_all add: f2_def\<close>)
    ultimately show ?thesis unfolding u1 u2
      by (simp add: used_split f1_def f2_def fin nf)
  qed
  show ?thesis using a b c by (simp add: f1_def f2_def retentionMs_def)
qed

subsection \<open>C5: the fallback search of a download\<close>

text \<open>
  C5, as amended. When the stored path of a file does not resolve, the owner's
  directory is scanned in listing order. For a node with a size, its first regular
  file that matches by size and by name is taken, and if it has none, its first
  regular file that matches by name alone; for a node of size 0 the first that matches
  by name. A name matches when the base name of the node, in lower case, is part of the
  base name of the entry, in lower case. Only if the owner's directory has no match by
  name at all are the directories of all accounts tried in listing order, each by the
  same rule, and the first directory that yields a file decides. On success the node's
  path is updated to the file found and the download proceeds (the node has a name);
  otherwise the request fails with the content-missing error. This holds for every
  \<^verbatim>\<open>toLowerCase\<close> and for every cast of the id of the request.
\<close>

theorem download_fallback:
  assumes c: "cast fileId = Some i"
    and f: "findOne (\<lambda>f. docId f = i
                       \<and> (userId f = uid u \<or> uid u \<in> fst ` set (sharedWith f))) (db s) = Some f"
    and nf: "\<not> isFolder f"
    and stale: "stalePath s f"
  shows "(resolved lower (disk s) f = None \<longrightarrow>
            download cast lower s u fileId = (ContentMissingError, s))
       \<and> (\<forall>p. resolved lower (disk s) f = Some p \<and> name f \<noteq> [] \<longrightarrow>
            (\<exists>s'. download cast lower s u fileId = (Stream (attachmentName f) p, s')
                \<and> map_option path (findById (db s') i) = Some (Some p)))"
proof (intro conjI allI impI)
  assume "resolved lower (disk s) f = None"
  then show "download cast lower s u fileId = (ContentMissingError, s)"
    using c f nf stale
    by (auto simp: download_def stalePath_def locate_resolved split: option.splits)
next
  fix p
  assume h: "resolved lower (disk s) f = Some p \<and> name f \<noteq> []"
  have idf: "docId f = i" using f by (auto dest: findOne_Some)
  have "findById (db s) i \<noteq> None"
    unfolding findById_def using f by (rule findOne_weaken) simp
  then obtain g where g: "findById (db s) i = Some g" by auto
  have va: "validActivity \<lparr>atype = ''download'', actFileId = Some i, fileName = name f,
              actUserId = Some (uid u), details = []\<rparr>"
    using h by (simp add: validActivity_def activityTypes_def)
  have an: "attachmentName (f\<lparr>path := Some p\<rparr>) = attachmentName f"
    by (simp add: attachmentName_def)
  have d: "download cast lower s u fileId
      = (Stream (attachmentName f) p,
         s\<lparr>db := updateOnePath i p (db s),
           activities := activities s @ [\<lparr>atype = ''download'', actFileId = Some i,
             fileName = name f, actUserId = Some (uid u), details = []\<rparr>]\<rparr>)"
    using c f nf stale h va an
    by (auto simp: download_def stalePath_def locate_resolved sendFile_def logActivity_def idf
        split: option.splits)
  show "\<exists>s'. download cast lower s u fileId = (Stream (attachmentName f) p, s')
                \<and> map_option path (findById (db s') i) = Some (Some p)"
    using d findById_updateOnePath[OF g, of p] by simp
qed

theorem download_fallback_witness:
  "hexCast idR = Some idR \<and> stalePath exStale reportDoc
   \<and> resolved asciiLower (disk exStale) reportDoc = Some (''u1'', ''Report-old.pdf'')
   \<and> (\<exists>s'. download hexCast asciiLower exStale ann idR
               = (Stream ''report.pdf'' (''u1'', ''Report-old.pdf''), s')
          \<and> map_option path (findById (db s') idR) = Some (Some (''u1'', ''Report-old.pdf'')))
   \<and> stalePath exGone reportDoc \<and> resolved asciiLower (disk exGone) reportDoc = None
   \<and> download hexCast asciiLower exGone ann idR = (ContentMissingError, exGone)"
  using ex_report ex_resolved hexCast_ids(6)
    download_fallback[where cast = hexCast and lower = asciiLower,
      OF hexCast_ids(6) ex_report(1) ex_report(3) ex_report(6)]
    download_fallback[where cast = hexCast and lower = asciiLower,
      OF hexCast_ids(6) ex_report(2) ex_report(3) ex_report(7)]
  by simp

text \<open>
  A match by name alone in the owner's area is taken although another area holds a file
  that matches by size and name, which the search as the specification words it finds.
  The names are ASCII, where \<^verbatim>\<open>toLowerCase\<close> is \<open>asciiLower\<close>.
\<close>

theorem fallback_prefers_own_area:
  "fst (download hexCast asciiLower exStale ann idR)
     = Stream ''report.pdf'' (''u1'', ''Report-old.pdf'')
   \<and> locateSpec asciiLower (disk exStale) reportDoc = Some (''u2'', ''report-2.pdf'')
   \<and> isBoth asciiLower reportDoc (''report-2.pdf'', RegularFile 10)
   \<and> \<not> isBoth asciiLower reportDoc (''Report-old.pdf'', RegularFile 7)"
  by (simp add: download_def sendFile_def logActivity_def validActivity_def activityTypes_def
      attachmentName_def existsSync_def findOne_def hexCast_lits search_defs search_examples
      example_defs)

subsection \<open>C6: moving a node onto itself\<close>

text \<open>
  C6, as amended. Let the node be addressed by its id in canonical form and let the
  target of the request be the node itself, given by name or by id (\<open>t\<close> is the value of
  \<^verbatim>\<open>targetFolderId\<close> after the lookup by name, \<open>castRef cast t\<close> the id it stands for).
  Nothing is changed. A file is refused with the error for a target folder that does not
  exist (the target is looked up among folders only). A folder is refused with the
  self-move error when the target id is the very string that addresses it, and with the
  cycle error when it is given by name or by another spelling of its id. Ids are unique
  in the collection.
\<close>

theorem move_onto_itself:
  assumes canon: "cast fileId = Some fileId"
    and f: "findOne (\<lambda>f. docId f = fileId \<and> userId f = uid u) (db s) = Some f"
    and ids: "distinct (map docId (db s))"
    and T: "targetRef s u b = Inr t"
    and self: "castRef cast t = Some fileId"
  shows "move cast s u fileId b now =
           Some (if \<not> isFolder f then Failure 404 ''Target folder not found''
                 else if t = Str fileId then SelfMoveError
                 else CycleError, s)"
proof -
  have fin: "f \<in> set (db s)" "docId f = fileId" "userId f = uid u"
    using f by (auto dest: findOne_Some)
  have tr: "truthy t" using targetRef_normal[OF T] self by (auto intro: castRef_Some_truthy)
  have only: "g = f" if "g \<in> set (db s)" "docId g = fileId" for g
    using distinct_docId_eq[OF ids that(1) fin(1)] that(2) fin(2) by simp
  have se: "strictEq fileId t \<longleftrightarrow> t = Str fileId" by (cases t) auto
  show ?thesis
  proof (cases "isFolder f")
    case False
    have "findOne (\<lambda>g. docId g = fileId \<and> userId g = uid u \<and> isFolder g) (db s) = None"
      unfolding findOne_None using only False by blast
    then show ?thesis using canon f T self False tr
      by (simp add: move_def checkTarget_def)
  next
    case True
    have "findOne (\<lambda>g. docId g = fileId \<and> userId g = uid u \<and> isFolder g) (db s) \<noteq> None"
      using fin True by (auto simp: findOne_None)
    then obtain B where
      B: "findOne (\<lambda>g. docId g = fileId \<and> userId g = uid u \<and> isFolder g) (db s) = Some B"
      by auto
    have "findById (db s) fileId \<noteq> None"
      unfolding findById_def using f by (rule findOne_weaken) simp
    then have "atOrBelow (db s) fileId fileId" by (auto intro: atOrBelow.self)
    then have chk: "checkIfSubfolder (db s) (Some fileId) fileId = Some True"
      by (rule atOrBelow_check)
    show ?thesis using canon f T self True tr B chk se
      by (simp add: move_def checkTarget_def SelfMoveError_def CycleError_def)
  qed
qed

theorem move_onto_itself_witness:
  "hexCast idX = Some idX \<and> hexCast idA = Some idA \<and> hexCast upperX = Some idX
   \<and> distinct (map docId (db exMove))
   \<and> move hexCast exMove ann idX (byId (Some idX)) 70 = Some (SelfMoveError, exMove)
   \<and> move hexCast exMove ann idA (byId (Some idA)) 70
       = Some (Failure 404 ''Target folder not found'', exMove)
   \<and> move hexCast exMove ann idX (byName ''X'') 70 = Some (CycleError, exMove)
   \<and> move hexCast exMove ann idX (byId (Some upperX)) 70 = Some (CycleError, exMove)"
proof -
  have ne: "upperX \<noteq> idX" by (simp add: idX_def upperX_def)
  show ?thesis
    using ne hexCast_ids(1,4,7) exMove_nodes(3,5,6)
      move_onto_itself[where cast = hexCast and fileId = idX and t = "Str idX" and now = 70,
        OF hexCast_ids(1) exMove_nodes(1) exMove_nodes(6) exMove_targets(3)]
      move_onto_itself[where cast = hexCast and fileId = idA and t = "Str idA" and now = 70,
        OF hexCast_ids(4) exMove_nodes(2) exMove_nodes(6) exMove_targets(4)]
      move_onto_itself[where cast = hexCast and fileId = idX and t = "Obj idX" and now = 70,
        OF hexCast_ids(1) exMove_nodes(1) exMove_nodes(6) exMove_targets(5)]
      move_onto_itself[where cast = hexCast and fileId = idX and t = "Str upperX" and now = 70,
        OF hexCast_ids(1) exMove_nodes(1) exMove_nodes(6) exMove_upper]
    by simp
qed

text \<open>
  The claim asks for the self-move error for a file too. A file moved onto its own id is
  answered with 404.
\<close>

theorem move_file_onto_itself_not_found:
  "move hexCast exMove ann idA (byId (Some idA)) 70
     = Some (Failure 404 ''Target folder not found'', exMove)
   \<and> Failure 404 ''Target folder not found'' \<noteq> SelfMoveError"
  by (simp add: move_defs move_examples)

subsection \<open>C7: the target of a move may be in trash\<close>

text \<open>
  C7. The claim asks that a move into a trashed folder is rejected. The lookup of the
  target by id does not filter on \<open>inTrash\<close>: the file \<open>A\<close> is moved into the trashed
  folder \<open>T\<close>. The lookup by name in the same route does filter, and does not find it.
\<close>

theorem move_into_trashed_folder:
  "inTrash mT
   \<and> (case move hexCast exMove ann idA (byId (Some idT)) 70 of
        None \<Rightarrow> False
      | Some (r, s') \<Rightarrow>
          r = Message 200 ''Moved successfully''
          \<and> map_option parentFolder (findById (db s') idA) = Some (Some idT))
   \<and> move hexCast exMove ann idA \<lparr>targetFolderId = None, targetFolderName = Some ''T''\<rparr> 70
       = Some (Failure 404 (''Folder '' @ [CHR 0x22] @ ''T'' @ [CHR 0x22] @ '' not found''), exMove)"
  by (simp add: move_defs move_examples)

text \<open>
  What the route does require of a target given by id: a folder of the same account.
\<close>

lemma move_target_checked:
  assumes "move cast s u fileId b now = Some (Message 200 ''Moved successfully'', s')"
    and "targetFolderId b = Some t" and "t \<noteq> []" and "t \<noteq> ''root''"
  shows "\<exists>i. cast t = Some i
           \<and> findOne (\<lambda>g. docId g = i \<and> userId g = uid u \<and> isFolder g) (db s) \<noteq> None"
proof -
  have rn: "targetRef s u b = Inr (Str t)"
    using assms(2,3,4)
    by (simp add: targetRef_def resolveName_def normalizeRoot_def Let_def split: option.splits)
  obtain i f where i: "cast fileId = Some i"
    and f: "findOne (\<lambda>f. docId f = i \<and> userId f = uid u) (db s) = Some f"
    using assms(1) by (auto simp: move_def moveFailed_def split: option.splits)
  have m: "(case checkTarget cast s u f fileId (Str t) of
              None \<Rightarrow> None
            | Some None \<Rightarrow> Some (commitMove cast s u f (Str t) now)
            | Some (Some r) \<Rightarrow> Some (r, s)) = Some (Message 200 ''Moved successfully'', s')"
    using assms(1) i f rn by (simp add: move_def)
  have "checkTarget cast s u f fileId (Str t) = Some None"
  proof (cases "checkTarget cast s u f fileId (Str t)")
    case None
    then show ?thesis using m by simp
  next
    case (Some o1)
    show ?thesis
    proof (cases o1)
      case None
      then show ?thesis using Some by simp
    next
      case (Some r)
      then have "checkTarget cast s u f fileId (Str t) = Some (Some r)"
        using \<open>checkTarget cast s u f fileId (Str t) = Some o1\<close> by simp
      then show ?thesis using m checkTarget_refuses by fastforce
    qed
  qed
  then show ?thesis using assms(3) by (rule checkTarget_passes)
qed



subsection \<open>C8: the parent walk returns only on chains that end\<close>

text \<open>
  C8, as amended. \<^verbatim>\<open>checkIfSubfolder\<close> has no bound on its iteration and reports no
  integrity error. It returns whenever the chain of parent links from its first argument
  ends at the root or at an id without a document, and whenever the sought folder lies
  on the chain; what it returns is whether the first folder is the sought one or lies
  below it.
\<close>

theorem checkIfSubfolder_returns:
  assumes "reachesRoot files cur \<or> (\<exists>b. cur = Some b \<and> atOrBelow files b a)"
  shows "checkIfSubfolder files cur a = Some (\<exists>b. cur = Some b \<and> atOrBelow files b a)"
proof (cases "\<exists>b. cur = Some b \<and> atOrBelow files b a")
  case True
  then show ?thesis by (auto simp: atOrBelow_check)
next
  case False
  with assms have "reachesRoot files cur" by simp
  from reachesRoot_check[OF this, of a] False show ?thesis by simp
qed

theorem checkIfSubfolder_returns_witness:
  "reachesRoot (db exTree) (Some ''z'')
   \<and> checkIfSubfolder (db exTree) (Some ''z'') ''x'' = Some False
   \<and> atOrBelow (db exTree) ''y'' ''x''
   \<and> checkIfSubfolder (db exTree) (Some ''y'') ''x'' = Some True"
proof -
  have r: "reachesRoot (db exTree) (Some ''z'')"
    using check_reachesRoot[OF exTree_walk_z] by simp
  have b: "atOrBelow (db exTree) ''y'' ''x''"
    using check_atOrBelow[OF exTree_walk_y] by simp
  have nb: "\<not> (\<exists>b. Some ''z'' = Some b \<and> atOrBelow (db exTree) b ''x'')"
    using atOrBelow_check[of "db exTree" "''z''" "''x''"] exTree_walk_z by auto
  show ?thesis
    using r b nb checkIfSubfolder_returns[of "db exTree" "Some ''z''" "''x''"]
      checkIfSubfolder_returns[of "db exTree" "Some ''y''" "''x''"]
    by simp
qed

text \<open>
  On a chain that runs in a circle without meeting the sought folder the walk never
  returns: a folder that is its own parent, asked about another folder.
\<close>

theorem checkIfSubfolder_loops:
  "checkIfSubfolder [loopFolder] (Some ''l'') ''x'' = None"
proof (cases "checkIfSubfolder [loopFolder] (Some ''l'') ''x''")
  case None
  then show ?thesis .
next
  case (Some r)
  have "[loopFolder] = [loopFolder] \<and> Some ''l'' = Some ''l'' \<and> ''x'' = ''x'' \<longrightarrow> False"
  proof (rule checkIfSubfolder.raw_induct
      [where P = "\<lambda>files cur a r. files = [loopFolder] \<and> cur = Some ''l'' \<and> a = ''x'' \<longrightarrow> False",
        OF _ Some])
    fix rec files cur a r
    assume IH: "\<And>files cur a r. rec files cur a = Some r \<Longrightarrow>
                  files = [loopFolder] \<and> cur = Some ''l'' \<and> a = ''x'' \<longrightarrow> False"
      and body: "(case cur of None \<Rightarrow> Some False
        | Some c \<Rightarrow> (case findById files c of None \<Rightarrow> Some False
           | Some folder \<Rightarrow> if docId folder = a then Some True
                           else rec files (parentFolder folder) a)) = Some r"
    show "files = [loopFolder] \<and> cur = Some ''l'' \<and> a = ''x'' \<longrightarrow> False"
    proof
      assume h: "files = [loopFolder] \<and> cur = Some ''l'' \<and> a = ''x''"
      with body have "rec [loopFolder] (Some ''l'') ''x'' = Some r"
        by (simp add: findById_def findOne_def loopFolder_def newFolder_def)
      from IH[OF this] show False by simp
    qed
  qed
  then show ?thesis by simp
qed

subsection \<open>C9: the bytes of a duplicate upload\<close>

text \<open>
  C9. The claim asks that the file persisted for a duplicate upload is deleted. The
  branch for a duplicate of the single route returns without unlinking it, unlike the
  branches for an invalid parent and for the quota: after the second upload of a.txt the
  second copy is still in the upload directory and no node points to it.
\<close>

theorem upload_duplicate_leaves_orphan:
  "fst (upload exFresh ann (Some aTxt) None ''a'' 40)
     = FileReply 201 ''File uploaded successfully'' (fullInfo ann fileA)
   \<and> fst (upload exDup ann (Some aTxt2) None ''b'' 80)
     = FileReply 200 ''File already exists, skipped duplicate'' (existingInfo fileA)
   \<and> db (snd (upload exDup ann (Some aTxt2) None ''b'' 80)) = [fileA]
   \<and> map path (db (snd (upload exDup ann (Some aTxt2) None ''b'' 80))) = [Some (''u1'', ''a-1.txt'')]
   \<and> existsSync (disk (snd (upload exDup ann (Some aTxt2) None ''b'' 80))) (''u1'', ''a-2.txt'')"
  by (simp add: upload_examples upload_defs example_defs Let_def)

text \<open>
  In general: a request that reaches the branch for a duplicate leaves the upload
  directory as multer left it.
\<close>

lemma upload_duplicate_keeps_bytes:
  assumes "parentOk s u (normalizeParent bodyParent)" and "\<not> overQuota s u (upSize upl)"
    and "existingSame s u upl (normalizeParent bodyParent) = Some existing"
  shows "upload s u (Some upl) bodyParent newId now
           = (FileReply 200 ''File already exists, skipped duplicate'' (existingInfo existing),
              updateUserStats (uid u) s)"
    and "disk (snd (upload s u (Some upl) bodyParent newId now)) = disk s"
  using assms by (simp_all add: upload_def updateUserStats_def)

subsection \<open>C10: a public link to nothing, to a trashed node or to a folder\<close>

text \<open>
  C10. A token that no node outside the trash carries (no node at all, or only nodes in
  trash, whose token stays set) is answered with 404 and the error of a missing file; a
  token whose node is a folder is answered with 400. Neither reply carries bytes.
\<close>

theorem publicDownload_rejects:
  "((\<forall>f \<in> set (db s). publicUrl f = Some token \<longrightarrow> inTrash f) \<longrightarrow>
      publicDownload s token = (Failure 404 ''File not found'', s))
   \<and> (\<forall>f. findOne (\<lambda>f. publicUrl f = Some token \<and> \<not> inTrash f) (db s) = Some f \<and> isFolder f \<longrightarrow>
      publicDownload s token = (Failure 400 ''Cannot download folders'', s))
   \<and> \<not> sendsBytes (Failure 404 ''File not found'')
   \<and> \<not> sendsBytes (Failure 400 ''Cannot download folders'')"
proof -
  have "findOne (\<lambda>f. publicUrl f = Some token \<and> \<not> inTrash f) (db s) = None"
    if "\<forall>f \<in> set (db s). publicUrl f = Some token \<longrightarrow> inTrash f"
    using that by (auto simp: findOne_None)
  then show ?thesis by (auto simp: publicDownload_def)
qed

theorem publicDownload_rejects_witness:
  "map_option publicUrl (findById (db (snd (trash exPublic ann ''a'' 1000 1000))) ''a'')
     = Some (Some ''tok'')
   \<and> publicDownload (snd (trash exPublic ann ''a'' 1000 1000)) ''tok''
       = (Failure 404 ''File not found'', snd (trash exPublic ann ''a'' 1000 1000))
   \<and> publicDownload exPublic ''none'' = (Failure 404 ''File not found'', exPublic)
   \<and> publicDownload exPublic ''dir'' = (Failure 400 ''Cannot download folders'', exPublic)"
proof -
  have a: "findOne (\<lambda>f. docId f = ''a'' \<and> userId f = uid ann) (db exPublic) = Some publicA"
    by (simp add: findOne_def example_defs)
  have t: "db (snd (trash exPublic ann ''a'' 1000 1000))
      = [publicA\<lparr>inTrash := True, deletedAt := Some 1000, permanentDeleteAt := Some (1000 + retentionMs)\<rparr>,
         publicDir]"
    using trash_state(1)[OF a, of 1000 1000] by (simp add: save_def example_defs)
  have h1: "\<forall>f \<in> set (db (snd (trash exPublic ann ''a'' 1000 1000))). publicUrl f = Some ''tok'' \<longrightarrow> inTrash f"
    unfolding t by (simp add: example_defs)
  have h2: "\<forall>f \<in> set (db exPublic). publicUrl f = Some ''none'' \<longrightarrow> inTrash f"
    by (simp add: example_defs)
  have h3: "findOne (\<lambda>f. publicUrl f = Some ''dir'' \<and> \<not> inTrash f) (db exPublic) = Some publicDir
            \<and> isFolder publicDir"
    by (simp add: findOne_def example_defs)
  have p: "map_option publicUrl (findById (db (snd (trash exPublic ann ''a'' 1000 1000))) ''a'')
     = Some (Some ''tok'')"
    unfolding t by (simp add: findById_def findOne_def example_defs)
  show ?thesis
    using p h1 h2 h3
      publicDownload_rejects[of "snd (trash exPublic ann ''a'' 1000 1000)" "''tok''"]
      publicDownload_rejects[of exPublic "''none''"]
      publicDownload_rejects[of exPublic "''dir''"]
    by blast
qed

text \<open>
  The route in fact never reaches its stream: the activity it logs before streaming has
  no user, which the activity schema requires, so the rethrown validation error ends
  every request for an existing file with status 500.
\<close>

lemma publicDownload_never_streams: "\<not> sendsBytes (fst (publicDownload s token))"
  by (simp add: publicDownload_def logActivity_def validActivity_def split: option.splits)

end
